theory Spec2Isabelle
  imports Main "HOL-Library.Word"
begin

unbundle bit_operations_syntax

section \<open>The expression data model of \<^verbatim>\<open>db/exp.cpp\<close>\<close>

text \<open>
  The enumeration \<^verbatim>\<open>OPER\<close> is declared in a header that is not among the sources.
  The constructors below are the enumerators that the functions embedded in this theory
  name; \<open>opOther n\<close> stands for the remaining enumerators (those that only the
  printer names), told apart by an index.  The numeric value of an enumerator is never
  fixed here: where the code compares or stores \<^verbatim>\<open>(int)op\<close> the numbering is a
  parameter.
\<close>

datatype OPER =
    opWild | opPlus | opMinus | opMult | opDiv
  | opMults | opDivs | opMod | opMods | opNeg | opAnd | opOr | opEquals | opNotEqual
  | opLess | opGtr | opLessEq | opGtrEq | opLessUns | opGtrUns | opLessEqUns | opGtrEqUns
  | opNot | opLNot | opBitAnd | opBitOr | opBitXor | opShiftL | opShiftR
  | opShiftRA | opSuccessor | opTern | opRegOf | opMemOf | opAddrOf
  | opSize | opZfill | opSgnEx
  | opIntConst | opFltConst | opStrConst | opPC | opAFP | opNil
  | opFlagDef | opTypedExp | opAssignExp | opOther nat

text \<open>
  The union \<^verbatim>\<open>u\<close> of class \<^verbatim>\<open>Const\<close>: \<^verbatim>\<open>u.i\<close> is a 32-bit \<^verbatim>\<open>int\<close>,
  \<^verbatim>\<open>u.d\<close> a \<^verbatim>\<open>double\<close>, kept as its 64-bit IEEE 754 pattern, and \<^verbatim>\<open>u.p\<close> a C
  string, kept as the characters before its terminating NUL.  The constructors of
  \<^verbatim>\<open>Const\<close> set the operator from the member they fill (\<^verbatim>\<open>opIntConst\<close>,
  \<^verbatim>\<open>opFltConst\<close>, \<^verbatim>\<open>opStrConst\<close>).
\<close>

type_synonym int32 = "32 word"
type_synonym double = "64 word"

datatype cval = Ui int32 | Ud double | Up string

text \<open>
  One constructor per class.  \<^verbatim>\<open>Terminal\<close>, \<^verbatim>\<open>Unary\<close>, \<^verbatim>\<open>Binary\<close> and
  \<^verbatim>\<open>Ternary\<close> carry any operator; \<^verbatim>\<open>TypedExp\<close>, \<^verbatim>\<open>AssignExp\<close> and \<^verbatim>\<open>FlagDef\<close>
  fix theirs in their constructors.  The type handle \<open>'t\<close> and the RTL handle \<open>'r\<close> are
  opaque.  Children are never null, as the classes require of a constructed node.
\<close>

datatype ('t, 'r) Exp =
    Const cval
  | Terminal OPER
  | Unary OPER "('t, 'r) Exp"
  | Binary OPER "('t, 'r) Exp" "('t, 'r) Exp"
  | Ternary OPER "('t, 'r) Exp" "('t, 'r) Exp" "('t, 'r) Exp"
  | TypedExp 't "('t, 'r) Exp"
  | AssignExp int32 "('t, 'r) Exp" "('t, 'r) Exp"
  | FlagDef "('t, 'r) Exp" 'r

fun constOper :: "cval \<Rightarrow> OPER" where
  "constOper (Ui k) = opIntConst"
| "constOper (Ud d) = opFltConst"
| "constOper (Up s) = opStrConst"

fun getOper :: "('t, 'r) Exp \<Rightarrow> OPER" where
  "getOper (Const c) = constOper c"
| "getOper (Terminal op) = op"
| "getOper (Unary op e1) = op"
| "getOper (Binary op e1 e2) = op"
| "getOper (Ternary op e1 e2 e3) = op"
| "getOper (TypedExp ty e1) = opTypedExp"
| "getOper (AssignExp sz e1 e2) = opAssignExp"
| "getOper (FlagDef e1 rtl) = opFlagDef"

text \<open>
  The member \<^verbatim>\<open>subExp1\<close> belongs to \<^verbatim>\<open>Unary\<close> and to every class derived from it
  (\<^verbatim>\<open>Binary\<close>, \<^verbatim>\<open>Ternary\<close>, \<^verbatim>\<open>TypedExp\<close>, \<^verbatim>\<open>AssignExp\<close>, \<^verbatim>\<open>FlagDef\<close>);
  \<^verbatim>\<open>subExp2\<close> to \<^verbatim>\<open>Binary\<close>, \<^verbatim>\<open>Ternary\<close> and \<^verbatim>\<open>AssignExp\<close>; \<^verbatim>\<open>subExp3\<close> to
  \<^verbatim>\<open>Ternary\<close>.  \<open>None\<close> says that the object has no such member, so that a cast
  to the class that has it would read outside the object.
\<close>

fun getSubExp1 :: "('t, 'r) Exp \<Rightarrow> ('t, 'r) Exp option" where
  "getSubExp1 (Unary op e1) = Some e1"
| "getSubExp1 (Binary op e1 e2) = Some e1"
| "getSubExp1 (Ternary op e1 e2 e3) = Some e1"
| "getSubExp1 (TypedExp ty e1) = Some e1"
| "getSubExp1 (AssignExp sz e1 e2) = Some e1"
| "getSubExp1 (FlagDef e1 rtl) = Some e1"
| "getSubExp1 (Const c) = None"
| "getSubExp1 (Terminal op) = None"

fun getSubExp2 :: "('t, 'r) Exp \<Rightarrow> ('t, 'r) Exp option" where
  "getSubExp2 (Binary op e1 e2) = Some e2"
| "getSubExp2 (Ternary op e1 e2 e3) = Some e2"
| "getSubExp2 (AssignExp sz e1 e2) = Some e2"
| "getSubExp2 (Const c) = None"
| "getSubExp2 (Terminal op) = None"
| "getSubExp2 (Unary op e1) = None"
| "getSubExp2 (TypedExp ty e1) = None"
| "getSubExp2 (FlagDef e1 rtl) = None"

fun getSubExp3 :: "('t, 'r) Exp \<Rightarrow> ('t, 'r) Exp option" where
  "getSubExp3 (Ternary op e1 e2 e3) = Some e3"
| "getSubExp3 (Const c) = None"
| "getSubExp3 (Terminal op) = None"
| "getSubExp3 (Unary op e1) = None"
| "getSubExp3 (Binary op e1 e2) = None"
| "getSubExp3 (TypedExp ty e1) = None"
| "getSubExp3 (AssignExp sz e1 e2) = None"
| "getSubExp3 (FlagDef e1 rtl) = None"

subsection \<open>Comparison of the payloads of constants\<close>

text \<open>
  \<^verbatim>\<open>u.d == o.u.d\<close> and \<^verbatim>\<open>u.d < o.u.d\<close> on IEEE 754 binary64 patterns: a NaN (exponent
  all ones, fraction not zero) is neither equal to nor below anything, the two zeros are
  equal, and otherwise the order is that of sign and magnitude.
\<close>

definition dbl_mag :: "double \<Rightarrow> double" where
  "dbl_mag d = d AND 0x7FFFFFFFFFFFFFFF"

definition dbl_neg :: "double \<Rightarrow> bool" where
  "dbl_neg d = bit d 63"

definition dbl_isnan :: "double \<Rightarrow> bool" where
  "dbl_isnan d = (0x7FF0000000000000 < dbl_mag d)"

definition dbl_eq :: "double \<Rightarrow> double \<Rightarrow> bool" where
  "dbl_eq a b =
     (if dbl_isnan a \<or> dbl_isnan b then False
      else if dbl_mag a = 0 \<and> dbl_mag b = 0 then True
      else a = b)"

definition dbl_less :: "double \<Rightarrow> double \<Rightarrow> bool" where
  "dbl_less a b =
     (if dbl_isnan a \<or> dbl_isnan b then False
      else if dbl_mag a = 0 \<and> dbl_mag b = 0 then False
      else if dbl_neg a \<and> \<not> dbl_neg b then True
      else if \<not> dbl_neg a \<and> dbl_neg b then False
      else if dbl_neg a then dbl_mag b < dbl_mag a
      else dbl_mag a < dbl_mag b)"

text \<open>\<^verbatim>\<open>strcmp(a, b) < 0\<close>: bytewise, unsigned, a proper prefix first.\<close>

fun strcmp_less :: "string \<Rightarrow> string \<Rightarrow> bool" where
  "strcmp_less [] [] = False"
| "strcmp_less [] (b # bs) = True"
| "strcmp_less (a # as) [] = False"
| "strcmp_less (a # as) (b # bs) =
     (if (of_char a :: nat) < of_char b then True
      else if (of_char b :: nat) < of_char a then False
      else strcmp_less as bs)"

subsection \<open>\<^verbatim>\<open>operator==\<close>\<close>

text \<open>
  The virtual \<^verbatim>\<open>operator==\<close> dispatches on the class of the left operand and casts
  the right operand to that class.  A wildcard on either side answers at once.  When
  the operators agree but the right operand is of a class that lacks a member the code
  reads, the read is outside the object; no such pair arises while an operator belongs
  to one class only, and the model answers \<open>False\<close> there.  \<^verbatim>\<open>FlagDef\<close> inherits
  the operator of \<^verbatim>\<open>Unary\<close>.  The comparison of two type handles is their equality.
\<close>

fun equals :: "('t, 'r) Exp \<Rightarrow> ('t, 'r) Exp \<Rightarrow> bool" where
  "equals (Const c) y =
     (if getOper y = opWild then True
      else if constOper c \<noteq> getOper y then False
      else (case (c, y) of
              (Ui i, Const (Ui j)) \<Rightarrow> i = j
            | (Ud d, Const (Ud e)) \<Rightarrow> dbl_eq d e
            | (Up p, Const (Up q)) \<Rightarrow> p = q
            | _ \<Rightarrow> False))"
| "equals (Terminal op) y = (op = opWild \<or> getOper y = opWild \<or> op = getOper y)"
| "equals (Unary op e1) y =
     (if op = opWild then True
      else if getOper y = opWild then True
      else if op \<noteq> getOper y then False
      else (case getSubExp1 y of Some y1 \<Rightarrow> equals e1 y1 | None \<Rightarrow> False))"
| "equals (FlagDef e1 rtl) y =
     (if getOper y = opWild then True
      else if opFlagDef \<noteq> getOper y then False
      else (case getSubExp1 y of Some y1 \<Rightarrow> equals e1 y1 | None \<Rightarrow> False))"
| "equals (Binary op e1 e2) y =
     (if op = opWild then True
      else if getOper y = opWild then True
      else if op \<noteq> getOper y then False
      else (case (getSubExp1 y, getSubExp2 y) of
              (Some y1, Some y2) \<Rightarrow> if \<not> equals e1 y1 then False else equals e2 y2
            | _ \<Rightarrow> False))"
| "equals (Ternary op e1 e2 e3) y =
     (if op = opWild then True
      else if getOper y = opWild then True
      else if op \<noteq> getOper y then False
      else (case (getSubExp1 y, getSubExp2 y, getSubExp3 y) of
              (Some y1, Some y2, Some y3) \<Rightarrow>
                if \<not> equals e1 y1 then False
                else if \<not> equals e2 y2 then False
                else equals e3 y3
            | _ \<Rightarrow> False))"
| "equals (TypedExp ty e1) y =
     (if getOper y = opWild then True
      else if getOper y \<noteq> opTypedExp then False
      else (case y of
              TypedExp ty' y1 \<Rightarrow> if ty \<noteq> ty' then False else equals e1 y1
            | _ \<Rightarrow> False))"
| "equals (AssignExp sz e1 e2) y =
     (if getOper y = opWild then True
      else if getOper y \<noteq> opAssignExp then False
      else (case y of
              AssignExp sz' y1 y2 \<Rightarrow>
                if sz \<noteq> sz' then False else equals e1 y1 \<and> equals e2 y2
            | _ \<Rightarrow> False))"

subsection \<open>\<^verbatim>\<open>operator<\<close>\<close>

text \<open>
  \<^verbatim>\<open>op < o.getOper()\<close> compares the numeric values of two enumerators; the numbering
  \<open>opnum\<close> is a parameter, and so is the order \<open>tless\<close> of the type handles
  (\<^verbatim>\<open>*type < *o.type\<close>).  As for \<^verbatim>\<open>operator==\<close>, the version of the class of the left
  operand runs and casts the right operand; where it would read a member the right
  operand lacks, the model answers \<open>False\<close>.  \<^verbatim>\<open>FlagDef\<close> inherits the operator of
  \<^verbatim>\<open>Unary\<close>.  \<^verbatim>\<open>u.i\<close> and \<^verbatim>\<open>size\<close> are compared as signed integers.
\<close>

lemma size_getSubExp1 [termination_simp]: "getSubExp1 y = Some y1 \<Longrightarrow> size y1 < size y"
  by (cases y) auto

lemma size_getSubExp2 [termination_simp]: "getSubExp2 y = Some y2 \<Longrightarrow> size y2 < size y"
  by (cases y) auto

lemma size_getSubExp3 [termination_simp]: "getSubExp3 y = Some y3 \<Longrightarrow> size y3 < size y"
  by (cases y) auto

function lessExp ::
  "(OPER \<Rightarrow> int) \<Rightarrow> ('t \<Rightarrow> 't \<Rightarrow> bool) \<Rightarrow> ('t, 'r) Exp \<Rightarrow> ('t, 'r) Exp \<Rightarrow> bool" where
  "lessExp opnum tless (Const c) y =
     (if opnum (constOper c) < opnum (getOper y) then True
      else if opnum (constOper c) > opnum (getOper y) then False
      else (case (c, y) of
              (Ui i, Const (Ui j)) \<Rightarrow> sint i < sint j
            | (Ud d, Const (Ud e)) \<Rightarrow> dbl_less d e
            | (Up p, Const (Up q)) \<Rightarrow> strcmp_less p q
            | _ \<Rightarrow> False))"
| "lessExp opnum tless (Terminal op) y = (opnum op < opnum (getOper y))"
| "lessExp opnum tless (Unary op e1) y =
     (if opnum op < opnum (getOper y) then True
      else if opnum op > opnum (getOper y) then False
      else (case getSubExp1 y of None \<Rightarrow> False | Some y1 \<Rightarrow> lessExp opnum tless e1 y1))"
| "lessExp opnum tless (FlagDef e1 rtl) y =
     (if opnum opFlagDef < opnum (getOper y) then True
      else if opnum opFlagDef > opnum (getOper y) then False
      else (case getSubExp1 y of None \<Rightarrow> False | Some y1 \<Rightarrow> lessExp opnum tless e1 y1))"
| "lessExp opnum tless (Binary op e1 e2) y =
     (if opnum op < opnum (getOper y) then True
      else if opnum op > opnum (getOper y) then False
      else (case getSubExp1 y of
              None \<Rightarrow> False
            | Some y1 \<Rightarrow>
                if lessExp opnum tless e1 y1 then True
                else if lessExp opnum tless y1 e1 then False
                else (case getSubExp2 y of
                        None \<Rightarrow> False
                      | Some y2 \<Rightarrow> lessExp opnum tless e2 y2)))"
| "lessExp opnum tless (Ternary op e1 e2 e3) y =
     (if opnum op < opnum (getOper y) then True
      else if opnum op > opnum (getOper y) then False
      else (case getSubExp1 y of
              None \<Rightarrow> False
            | Some y1 \<Rightarrow>
                if lessExp opnum tless e1 y1 then True
                else if lessExp opnum tless y1 e1 then False
                else (case getSubExp3 y of
                        None \<Rightarrow> False
                      | Some y3 \<Rightarrow> lessExp opnum tless e3 y3)))"
| "lessExp opnum tless (TypedExp ty e1) y =
     (if opnum opTypedExp < opnum (getOper y) then True
      else if opnum opTypedExp > opnum (getOper y) then False
      else (case y of
              TypedExp ty' y1 \<Rightarrow>
                if tless ty ty' then True
                else if tless ty' ty then False
                else lessExp opnum tless e1 y1
            | _ \<Rightarrow> False))"
| "lessExp opnum tless (AssignExp sz e1 e2) y =
     (if opnum opAssignExp < opnum (getOper y) then True
      else if opnum opAssignExp > opnum (getOper y) then False
      else (case y of
              AssignExp sz' y1 y2 \<Rightarrow>
                if sint sz < sint sz' then True
                else if sint sz' < sint sz then False
                else lessExp opnum tless e1 y1 \<or> lessExp opnum tless e2 y2
            | _ \<Rightarrow> False))"
  by pat_completeness auto
termination
  by (relation "measure (\<lambda>(opnum, tless, x, y). size x + size y)")
     (auto dest: size_getSubExp1 size_getSubExp2 size_getSubExp3)

subsection \<open>Searching\<close>

text \<open>
  \<^verbatim>\<open>doSearch\<close> collects in \<^verbatim>\<open>li\<close> the addresses of the pointers (\<^verbatim>\<open>Exp**\<close>) that hold
  a match.  Such an address is modelled by the way to it from the pointer the search
  started at: the list of the child numbers (1, 2, 3) to follow; the empty list is the
  starting pointer itself.  \<open>slot\<close> is the address of \<^verbatim>\<open>pSrc\<close>.
\<close>

type_synonym slot = "nat list"

fun doSearch :: "('t, 'r) Exp \<Rightarrow> ('t, 'r) Exp \<Rightarrow> slot \<Rightarrow> slot list \<Rightarrow> bool \<Rightarrow> slot list"
  and doSearchChildren ::
    "('t, 'r) Exp \<Rightarrow> ('t, 'r) Exp \<Rightarrow> slot \<Rightarrow> slot list \<Rightarrow> bool \<Rightarrow> slot list" where
  "doSearch search pSrc slot li once =
     (let compare = equals search pSrc;
          li1 = (if compare then li @ [slot] else li)
      in if compare \<and> once then li1
         else doSearchChildren search pSrc slot li1 once)"
| "doSearchChildren search (Const c) slot li once = li"
| "doSearchChildren search (Terminal op) slot li once = li"
| "doSearchChildren search (Unary op e1) slot li once =
     doSearch search e1 (slot @ [1]) li once"
| "doSearchChildren search (FlagDef e1 rtl) slot li once =
     doSearch search e1 (slot @ [1]) li once"
| "doSearchChildren search (Binary op e1 e2) slot li once =
     (let li1 = doSearch search e1 (slot @ [1]) li once
      in if once \<and> li1 \<noteq> [] then li1
         else doSearch search e2 (slot @ [2]) li1 once)"
| "doSearchChildren search (Ternary op e1 e2 e3) slot li once =
     (let li1 = doSearch search e1 (slot @ [1]) li once
      in if once \<and> li1 \<noteq> [] then li1
         else let li2 = doSearch search e2 (slot @ [2]) li1 once
              in if once \<and> li2 \<noteq> [] then li2
                 else doSearch search e3 (slot @ [3]) li2 once)"
| "doSearchChildren search (TypedExp ty e1) slot li once =
     doSearch search e1 (slot @ [1]) li once"
| "doSearchChildren search (AssignExp sz e1 e2) slot li once =
     (let li1 = doSearch search e1 (slot @ [1]) li once
      in doSearch search e2 (slot @ [2]) li1 once)"

text \<open>Reading the pointer at an address: \<^verbatim>\<open>*pp\<close>.\<close>

fun child :: "('t, 'r) Exp \<Rightarrow> nat \<Rightarrow> ('t, 'r) Exp option" where
  "child e n =
     (if n = 1 then getSubExp1 e
      else if n = 2 then getSubExp2 e
      else if n = 3 then getSubExp3 e
      else None)"

fun deref :: "('t, 'r) Exp \<Rightarrow> slot \<Rightarrow> ('t, 'r) Exp option" where
  "deref e [] = Some e"
| "deref e (n # ns) = (case child e n of None \<Rightarrow> None | Some c \<Rightarrow> deref c ns)"

text \<open>
  \<^verbatim>\<open>Exp::search\<close>: the returned pair is the function's result and the final value of
  the out-parameter \<^verbatim>\<open>result\<close>, \<open>None\<close> being the null pointer.
\<close>

definition search :: "('t, 'r) Exp \<Rightarrow> ('t, 'r) Exp \<Rightarrow> bool \<times> ('t, 'r) Exp option" where
  "search this pat =
     (case doSearch pat this [] [] False of
        [] \<Rightarrow> (False, None)
      | pp # rest \<Rightarrow> (True, deref this pp))"

text \<open>
  The subtrees of an expression in pre-order, as the specification words the order of
  \<open>search\<close>: the root before its children, the children from left to right.
\<close>

fun preorder :: "('t, 'r) Exp \<Rightarrow> ('t, 'r) Exp list" where
  "preorder (Const c) = [Const c]"
| "preorder (Terminal op) = [Terminal op]"
| "preorder (Unary op e1) = Unary op e1 # preorder e1"
| "preorder (Binary op e1 e2) = Binary op e1 e2 # preorder e1 @ preorder e2"
| "preorder (Ternary op e1 e2 e3) =
     Ternary op e1 e2 e3 # preorder e1 @ preorder e2 @ preorder e3"
| "preorder (TypedExp ty e1) = TypedExp ty e1 # preorder e1"
| "preorder (AssignExp sz e1 e2) = AssignExp sz e1 e2 # preorder e1 @ preorder e2"
| "preorder (FlagDef e1 rtl) = FlagDef e1 rtl # preorder e1"

subsection \<open>Failures\<close>

text \<open>
  What ends a run of the code other than a return: \<open>BadCast\<close>, a member read through
  a cast to a class the object does not belong to (the read is outside the object, so
  the behaviour is undefined); \<open>AssertFailed\<close>, an \<^verbatim>\<open>assert\<close> that does not hold;
  \<open>DivideError\<close>, an integer division by zero or of \<^verbatim>\<open>INT_MIN\<close> by \<open>-1\<close>;
  \<open>ShiftRange\<close>, a shift by a count outside \<open>0..31\<close>; \<open>UseAfterFree\<close>, a write
  through a pointer into a tree that has been deleted.
\<close>

datatype error =
  BadCast | AssertFailed | DivideError | ShiftRange | UseAfterFree

definition bindE :: "error + 'a \<Rightarrow> ('a \<Rightarrow> error + 'b) \<Rightarrow> error + 'b" where
  "bindE m f = (case m of Inl e \<Rightarrow> Inl e | Inr v \<Rightarrow> f v)"

lemma bindE_cong [fundef_cong]:
  "m = m' \<Longrightarrow> (\<And>v. m' = Inr v \<Longrightarrow> f v = f' v) \<Longrightarrow> bindE m f = bindE m' f'"
  by (auto simp: bindE_def split: sum.splits)

text \<open>\<^verbatim>\<open>((Const*)e)->getInt()\<close> and \<^verbatim>\<open>((Const*)e)->setInt(k)\<close>.\<close>

definition getInt :: "('t, 'r) Exp \<Rightarrow> error + int32" where
  "getInt e = (case e of Const (Ui k) \<Rightarrow> Inr k | _ \<Rightarrow> Inl BadCast)"

definition setInt :: "('t, 'r) Exp \<Rightarrow> int32 \<Rightarrow> error + ('t, 'r) Exp" where
  "setInt e k = (case e of Const (Ui j) \<Rightarrow> Inr (Const (Ui k)) | _ \<Rightarrow> Inl BadCast)"

definition sub1E :: "('t, 'r) Exp \<Rightarrow> error + ('t, 'r) Exp" where
  "sub1E e = (case getSubExp1 e of None \<Rightarrow> Inl BadCast | Some s \<Rightarrow> Inr s)"

definition sub2E :: "('t, 'r) Exp \<Rightarrow> error + ('t, 'r) Exp" where
  "sub2E e = (case getSubExp2 e of None \<Rightarrow> Inl BadCast | Some s \<Rightarrow> Inr s)"

text \<open>
  \<^verbatim>\<open>setOper\<close> overwrites the operator of a node.  The code applies it to a plain
  \<^verbatim>\<open>Binary\<close> and to a child whose operator is \<^verbatim>\<open>opEquals\<close> or \<^verbatim>\<open>opNotEqual\<close>, which
  is then of one of the four classes below; the classes whose operator their class fixes
  are never its target.
\<close>

fun setOper :: "('t, 'r) Exp \<Rightarrow> OPER \<Rightarrow> ('t, 'r) Exp" where
  "setOper (Terminal old) op = Terminal op"
| "setOper (Unary old e1) op = Unary op e1"
| "setOper (Binary old e1 e2) op = Binary op e1 e2"
| "setOper (Ternary old e1 e2 e3) op = Ternary op e1 e2 e3"
| "setOper e op = e"

text \<open>
  \<^verbatim>\<open>clone\<close> copies a tree.  Every class but \<^verbatim>\<open>FlagDef\<close> defines its own; a
  \<^verbatim>\<open>FlagDef\<close> is copied by the version of \<^verbatim>\<open>Unary\<close>, which builds a plain \<^verbatim>\<open>Unary\<close>
  with the same operator and a copy of the child.
\<close>

fun clone :: "('t, 'r) Exp \<Rightarrow> ('t, 'r) Exp" where
  "clone (Const c) = Const c"
| "clone (Terminal op) = Terminal op"
| "clone (Unary op e1) = Unary op (clone e1)"
| "clone (Binary op e1 e2) = Binary op (clone e1) (clone e2)"
| "clone (Ternary op e1 e2 e3) = Ternary op (clone e1) (clone e2) (clone e3)"
| "clone (TypedExp ty e1) = TypedExp ty (clone e1)"
| "clone (AssignExp sz e1 e2) = AssignExp sz (clone e1) (clone e2)"
| "clone (FlagDef e1 rtl) = Unary opFlagDef (clone e1)"

subsection \<open>Arithmetic normalisation: \<^verbatim>\<open>partitionTerms\<close>, \<^verbatim>\<open>Accumulate\<close>, \<^verbatim>\<open>simplifyArith\<close>\<close>

text \<open>
  The three output parameters \<^verbatim>\<open>positives\<close>, \<^verbatim>\<open>negatives\<close> and \<^verbatim>\<open>integers\<close>
  are passed in and returned; \<^verbatim>\<open>push_back\<close> appends.  The function switches on the
  operator and casts to \<^verbatim>\<open>Binary\<close> or \<^verbatim>\<open>Const\<close>; the equations follow the class of
  the object, and the operator inside each.  \<open>p1\<close> and \<open>p2\<close> are the locals of the
  code; under the label \<^verbatim>\<open>opAssignExp\<close> both are read with \<^verbatim>\<open>getSubExp1()\<close>.
\<close>

type_synonym ('t, 'r) terms = "('t, 'r) Exp list \<times> ('t, 'r) Exp list \<times> int32 list"

definition pushTerm :: "('t, 'r) Exp \<Rightarrow> ('t, 'r) terms \<Rightarrow> bool \<Rightarrow> ('t, 'r) terms" where
  "pushTerm e acc negate =
     (case acc of (positives, negatives, integers) \<Rightarrow>
        if negate then (positives, negatives @ [e], integers)
        else (positives @ [e], negatives, integers))"

definition pushInt :: "int32 \<Rightarrow> ('t, 'r) terms \<Rightarrow> bool \<Rightarrow> ('t, 'r) terms" where
  "pushInt k acc negate =
     (case acc of (positives, negatives, integers) \<Rightarrow>
        if negate then (positives, negatives, integers @ [- k])
        else (positives, negatives, integers @ [k]))"

fun partitionTerms ::
  "('t, 'r) Exp \<Rightarrow> ('t, 'r) terms \<Rightarrow> bool \<Rightarrow> error + ('t, 'r) terms" where
  "partitionTerms (Binary op subExp1 subExp2) acc negate =
     (if op = opPlus then
        (let p1 = subExp1; p2 = subExp2 in
         bindE (partitionTerms p1 acc negate) (\<lambda>acc1. partitionTerms p2 acc1 negate))
      else if op = opMinus then
        (let p1 = subExp1; p2 = subExp2 in
         bindE (partitionTerms p1 acc negate) (\<lambda>acc1. partitionTerms p2 acc1 (\<not> negate)))
      else if op = opTypedExp then
        (let p1 = subExp1 in partitionTerms p1 acc negate)
      else if op = opAssignExp then
        (let p1 = subExp1; p2 = subExp1 in
         bindE (partitionTerms p1 acc negate) (\<lambda>acc1. partitionTerms p2 acc1 negate))
      else if op = opIntConst then Inl BadCast
      else Inr (pushTerm (Binary op subExp1 subExp2) acc negate))"
| "partitionTerms (Ternary op subExp1 subExp2 subExp3) acc negate =
     (if op = opPlus then
        (let p1 = subExp1; p2 = subExp2 in
         bindE (partitionTerms p1 acc negate) (\<lambda>acc1. partitionTerms p2 acc1 negate))
      else if op = opMinus then
        (let p1 = subExp1; p2 = subExp2 in
         bindE (partitionTerms p1 acc negate) (\<lambda>acc1. partitionTerms p2 acc1 (\<not> negate)))
      else if op = opTypedExp then
        (let p1 = subExp1 in partitionTerms p1 acc negate)
      else if op = opAssignExp then
        (let p1 = subExp1; p2 = subExp1 in
         bindE (partitionTerms p1 acc negate) (\<lambda>acc1. partitionTerms p2 acc1 negate))
      else if op = opIntConst then Inl BadCast
      else Inr (pushTerm (Ternary op subExp1 subExp2 subExp3) acc negate))"
| "partitionTerms (AssignExp sz subExp1 subExp2) acc negate =
     (let p1 = subExp1; p2 = subExp1 in
      bindE (partitionTerms p1 acc negate) (\<lambda>acc1. partitionTerms p2 acc1 negate))"
| "partitionTerms (TypedExp ty subExp1) acc negate =
     (let p1 = subExp1 in partitionTerms p1 acc negate)"
| "partitionTerms (Unary op subExp1) acc negate =
     (if op = opPlus \<or> op = opMinus then Inl BadCast
      else if op = opTypedExp then
        (let p1 = subExp1 in partitionTerms p1 acc negate)
      else if op = opAssignExp then
        (let p1 = subExp1; p2 = subExp1 in
         bindE (partitionTerms p1 acc negate) (\<lambda>acc1. partitionTerms p2 acc1 negate))
      else if op = opIntConst then Inl BadCast
      else Inr (pushTerm (Unary op subExp1) acc negate))"
| "partitionTerms (FlagDef subExp1 rtl) acc negate =
     Inr (pushTerm (FlagDef subExp1 rtl) acc negate)"
| "partitionTerms (Terminal op) acc negate =
     (if op = opPlus \<or> op = opMinus \<or> op = opTypedExp \<or> op = opAssignExp \<or> op = opIntConst
      then Inl BadCast
      else Inr (pushTerm (Terminal op) acc negate))"
| "partitionTerms (Const c) acc negate =
     (case c of
        Ui k \<Rightarrow> Inr (pushInt k acc negate)
      | Ud d \<Rightarrow> Inr (pushTerm (Const c) acc negate)
      | Up s \<Rightarrow> Inr (pushTerm (Const c) acc negate))"

text \<open>
  The cancelling sweep of \<^verbatim>\<open>Binary::simplifyArith\<close>.  \<open>findCancel\<close> is the inner
  loop: from the iterator \<^verbatim>\<open>nn\<close> on, look for a negative equal to the positive at
  \<^verbatim>\<open>pp\<close>; \<open>nd\<close> holds the negatives before \<^verbatim>\<open>nn\<close>.  \<^verbatim>\<open>nn\<close> is never set back to the
  beginning: once a positive finds no partner, \<^verbatim>\<open>nn\<close> stays at the end.
\<close>

fun findCancel ::
  "('t, 'r) Exp \<Rightarrow> ('t, 'r) Exp list \<Rightarrow> ('t, 'r) Exp list
     \<Rightarrow> bool \<times> ('t, 'r) Exp list \<times> ('t, 'r) Exp list" where
  "findCancel p nd [] = (False, nd, [])"
| "findCancel p nd (n # nr) =
     (if equals p n then (True, nd, nr) else findCancel p (nd @ [n]) nr)"

fun cancelPairs ::
  "('t, 'r) Exp list \<Rightarrow> ('t, 'r) Exp list \<Rightarrow> ('t, 'r) Exp list \<Rightarrow> ('t, 'r) Exp list
     \<Rightarrow> ('t, 'r) Exp list \<times> ('t, 'r) Exp list" where
  "cancelPairs pd [] nd nr = (pd, nd @ nr)"
| "cancelPairs pd (p # pr) nd nr =
     (case findCancel p nd nr of
        (True, nd', nr') \<Rightarrow> cancelPairs pd pr nd' nr'
      | (False, nd', nr') \<Rightarrow> cancelPairs (pd @ [p]) pr nd' nr')"

fun Accumulate :: "('t, 'r) Exp list \<Rightarrow> ('t, 'r) Exp" where
  "Accumulate [] = Const (Ui 0)"
| "Accumulate [e] = clone e"
| "Accumulate (e # e' # es) = Binary opPlus (clone e) (Accumulate (e' # es))"

text \<open>The part of \<^verbatim>\<open>Binary::simplifyArith\<close> after the partition.\<close>

definition recombine :: "('t, 'r) terms \<Rightarrow> ('t, 'r) Exp" where
  "recombine acc =
     (case acc of (positives0, negatives0, integers) \<Rightarrow>
      case cancelPairs [] positives0 [] negatives0 of (positives, negatives) \<Rightarrow>
      let sum = foldl (+) 0 integers in
      if positives = [] then
        (if negatives = [] then Const (Ui sum)
         else Binary opMinus (Const (Ui sum)) (Accumulate negatives))
      else if negatives = [] then
        (if sum = 0 then Accumulate positives
         else Binary opPlus (Accumulate positives) (Const (Ui sum)))
      else if sum = 0 then Binary opMinus (Accumulate positives) (Accumulate negatives)
      else Binary opPlus (Binary opMinus (Accumulate positives) (Accumulate negatives))
             (Const (Ui sum)))"

text \<open>
  Modelled from the spec: \<^verbatim>\<open>Exp::simplifyArith\<close>, the version that \<^verbatim>\<open>Const\<close> and
  \<^verbatim>\<open>Terminal\<close> inherit, is in a header that is not among the sources; the
  specification has \<open>simplify_arith\<close> leave every shape it does not name unchanged.
\<close>

definition Exp_simplifyArith :: "('t, 'r) Exp \<Rightarrow> ('t, 'r) Exp" where
  "Exp_simplifyArith e = e"

text \<open>
  \<^verbatim>\<open>simplifyArith\<close> is defined for \<^verbatim>\<open>Unary\<close> (inherited by \<^verbatim>\<open>TypedExp\<close> and
  \<^verbatim>\<open>FlagDef\<close>), \<^verbatim>\<open>Binary\<close> (inherited by \<^verbatim>\<open>Ternary\<close>) and \<^verbatim>\<open>AssignExp\<close>.
\<close>

fun simplifyArith :: "('t, 'r) Exp \<Rightarrow> error + ('t, 'r) Exp" where
  "simplifyArith (Unary op e1) =
     (if op = opMemOf \<or> op = opRegOf then
        bindE (simplifyArith e1) (\<lambda>s1. Inr (Unary op s1))
      else Inr (Unary op e1))"
| "simplifyArith (TypedExp ty e1) = Inr (TypedExp ty e1)"
| "simplifyArith (FlagDef e1 rtl) = Inr (FlagDef e1 rtl)"
| "simplifyArith (AssignExp sz e1 e2) =
     bindE (simplifyArith e1) (\<lambda>s1.
     bindE (simplifyArith e2) (\<lambda>s2. Inr (AssignExp sz s1 s2)))"
| "simplifyArith (Binary op e1 e2) =
     (if op \<noteq> opPlus \<and> op \<noteq> opMinus then
        bindE (simplifyArith e1) (\<lambda>s1.
        bindE (simplifyArith e2) (\<lambda>s2. Inr (Binary op s1 s2)))
      else bindE (partitionTerms (Binary op e1 e2) ([], [], []) False)
             (\<lambda>acc. Inr (recombine acc)))"
| "simplifyArith (Ternary op e1 e2 e3) =
     (if op \<noteq> opPlus \<and> op \<noteq> opMinus then
        bindE (simplifyArith e1) (\<lambda>s1.
        bindE (simplifyArith e2) (\<lambda>s2. Inr (Ternary op s1 s2 e3)))
      else bindE (partitionTerms (Ternary op e1 e2 e3) ([], [], []) False)
             (\<lambda>acc. Inr (recombine acc)))"
| "simplifyArith (Const c) = Inr (Exp_simplifyArith (Const c))"
| "simplifyArith (Terminal op) = Inr (Exp_simplifyArith (Terminal op))"

subsection \<open>The peephole simplifier: \<^verbatim>\<open>polySimplify\<close> and \<^verbatim>\<open>simplify\<close>\<close>

text \<open>
  Integer arithmetic on \<^verbatim>\<open>int\<close> is two's complement on 32 bits with wrap-around, as
  the specification fixes it.  \<^verbatim>\<open>/\<close> and \<^verbatim>\<open>%\<close> on \<^verbatim>\<open>int\<close> truncate towards zero;
  on \<^verbatim>\<open>unsigned\<close> they are the division of the unsigned values.  \<^verbatim>\<open>>>\<close> on a
  negative \<^verbatim>\<open>int\<close> copies the sign bit.
\<close>

definition c_div :: "int \<Rightarrow> int \<Rightarrow> int" where
  "c_div a b = sgn a * sgn b * (\<bar>a\<bar> div \<bar>b\<bar>)"

definition c_mod :: "int \<Rightarrow> int \<Rightarrow> int" where
  "c_mod a b = a - b * c_div a b"

definition INT_MIN :: int32 where
  "INT_MIN = 0x80000000"

definition sdiv32 :: "int32 \<Rightarrow> int32 \<Rightarrow> error + int32" where
  "sdiv32 k1 k2 =
     (if k2 = 0 \<or> (k1 = INT_MIN \<and> k2 = - 1) then Inl DivideError
      else Inr (word_of_int (c_div (sint k1) (sint k2))))"

definition smod32 :: "int32 \<Rightarrow> int32 \<Rightarrow> error + int32" where
  "smod32 k1 k2 =
     (if k2 = 0 \<or> (k1 = INT_MIN \<and> k2 = - 1) then Inl DivideError
      else Inr (word_of_int (c_mod (sint k1) (sint k2))))"

definition udiv32 :: "int32 \<Rightarrow> int32 \<Rightarrow> error + int32" where
  "udiv32 k1 k2 = (if k2 = 0 then Inl DivideError else Inr (k1 div k2))"

definition umod32 :: "int32 \<Rightarrow> int32 \<Rightarrow> error + int32" where
  "umod32 k1 k2 = (if k2 = 0 then Inl DivideError else Inr (k1 mod k2))"

definition shiftCount :: "int32 \<Rightarrow> error + nat" where
  "shiftCount k = (if 0 \<le> sint k \<and> sint k < 32 then Inr (unat k) else Inl ShiftRange)"

definition boolInt :: "bool \<Rightarrow> int32" where
  "boolInt b = (if b then 1 else 0)"

text \<open>
  The \<^verbatim>\<open>switch\<close> that folds \<^verbatim>\<open>k1 op k2\<close>.  \<open>None\<close> is the \<^verbatim>\<open>default\<close> label
  (\<^verbatim>\<open>change = false\<close>).  The labels \<^verbatim>\<open>opDiv\<close> and \<^verbatim>\<open>opMod\<close> have no \<^verbatim>\<open>break\<close>:
  control runs on into the statement of \<^verbatim>\<open>opDivs\<close> and \<^verbatim>\<open>opMods\<close>.
\<close>

definition foldConst :: "OPER \<Rightarrow> int32 \<Rightarrow> int32 \<Rightarrow> error + int32 option" where
  "foldConst op k1 k2 =
     (if op = opPlus then Inr (Some (k1 + k2))
      else if op = opMinus then Inr (Some (k1 - k2))
      else if op = opDiv then
        bindE (udiv32 k1 k2) (\<lambda>q. bindE (sdiv32 q k2) (\<lambda>r. Inr (Some r)))
      else if op = opDivs then bindE (sdiv32 k1 k2) (\<lambda>r. Inr (Some r))
      else if op = opMod then
        bindE (umod32 k1 k2) (\<lambda>q. bindE (smod32 q k2) (\<lambda>r. Inr (Some r)))
      else if op = opMods then bindE (smod32 k1 k2) (\<lambda>r. Inr (Some r))
      else if op = opMult then Inr (Some (k1 * k2))
      else if op = opMults then Inr (Some (k1 * k2))
      else if op = opShiftL then
        bindE (shiftCount k2) (\<lambda>n. Inr (Some (push_bit n k1)))
      else if op = opShiftR then
        bindE (shiftCount k2) (\<lambda>n. Inr (Some (signed_drop_bit n k1)))
      else if op = opShiftRA then
        bindE (shiftCount k2) (\<lambda>n.
        bindE (shiftCount (32 - k2)) (\<lambda>m.
          Inr (Some (signed_drop_bit n k1 OR push_bit m (push_bit n 1 - 1)))))
      else if op = opBitOr then Inr (Some (k1 OR k2))
      else if op = opBitAnd then Inr (Some (k1 AND k2))
      else if op = opBitXor then Inr (Some (k1 XOR k2))
      else if op = opAnd then Inr (Some (boolInt (k1 \<noteq> 0 \<and> k2 \<noteq> 0)))
      else if op = opOr then Inr (Some (boolInt (k1 \<noteq> 0 \<or> k2 \<noteq> 0)))
      else if op = opEquals then Inr (Some (boolInt (k1 = k2)))
      else if op = opNotEqual then Inr (Some (boolInt (k1 \<noteq> k2)))
      else if op = opLess then Inr (Some (boolInt (sint k1 < sint k2)))
      else if op = opGtr then Inr (Some (boolInt (sint k1 > sint k2)))
      else if op = opLessEq then Inr (Some (boolInt (sint k1 \<le> sint k2)))
      else if op = opGtrEq then Inr (Some (boolInt (sint k1 \<ge> sint k2)))
      else if op = opLessUns then Inr (Some (boolInt (k1 < k2)))
      else if op = opGtrUns then Inr (Some (boolInt (k1 > k2)))
      else if op = opLessEqUns then Inr (Some (boolInt (k1 \<le> k2)))
      else if op = opGtrEqUns then Inr (Some (boolInt (k1 \<ge> k2)))
      else Inr None)"

text \<open>
  Modelled from the spec: \<^verbatim>\<open>isComparison\<close> is defined in a header that is not among
  the sources; the specification's comparisons are the equality tests and the signed and
  unsigned orderings.
\<close>

definition isComparison :: "OPER \<Rightarrow> bool" where
  "isComparison op =
     (op = opEquals \<or> op = opNotEqual \<or> op = opLess \<or> op = opGtr \<or> op = opLessEq \<or>
      op = opGtrEq \<or> op = opLessUns \<or> op = opGtrUns \<or> op = opLessEqUns \<or>
      op = opGtrEqUns)"

text \<open>
  The state of one run of \<^verbatim>\<open>Binary::polySimplify\<close> after its children are simplified:
  the members \<^verbatim>\<open>op\<close>, \<^verbatim>\<open>subExp1\<close>, \<^verbatim>\<open>subExp2\<close> of the object and the locals
  \<^verbatim>\<open>opSub1\<close>, \<^verbatim>\<open>opSub2\<close>, which the code reads once and then updates only where it
  says so.  A rule either returns (\<open>Return res bMod\<close>) or falls through to the next with
  a possibly changed state.
\<close>

record ('t, 'r) binst =
  this_op :: OPER
  this_subExp1 :: "('t, 'r) Exp"
  this_subExp2 :: "('t, 'r) Exp"
  opSub1 :: OPER
  opSub2 :: OPER

datatype ('t, 'r) flow = Return "('t, 'r) Exp" bool | Continue "('t, 'r) binst" bool

type_synonym ('t, 'r) rule = "('t, 'r) binst \<Rightarrow> bool \<Rightarrow> error + ('t, 'r) flow"

fun chain :: "('t, 'r) rule list \<Rightarrow> ('t, 'r) rule" where
  "chain [] st bMod = Inr (Continue st bMod)"
| "chain (r # rs) st bMod =
     (case r st bMod of
        Inl e \<Rightarrow> Inl e
      | Inr (Return res b) \<Rightarrow> Inr (Return res b)
      | Inr (Continue st' b) \<Rightarrow> chain rs st' b)"

definition thisExp :: "('t, 'r) binst \<Rightarrow> ('t, 'r) Exp" where
  "thisExp st = Binary (this_op st) (this_subExp1 st) (this_subExp2 st)"

text \<open>\<^verbatim>\<open>opSub2 == opIntConst && ((Const*)subExp2)->getInt()\<close> satisfies \<open>Q\<close>.\<close>

definition sub2Int :: "('t, 'r) binst \<Rightarrow> (int32 \<Rightarrow> bool) \<Rightarrow> error + bool" where
  "sub2Int st Q =
     (if opSub2 st \<noteq> opIntConst then Inr False
      else bindE (getInt (this_subExp2 st)) (\<lambda>k. Inr (Q k)))"

text \<open>
  The step shared by several rules: the children of \<^verbatim>\<open>subExp1\<close>, cast to \<^verbatim>\<open>Binary\<close>,
  replace the children of this node.
\<close>

definition liftSub1 :: "('t, 'r) binst \<Rightarrow> error + ('t, 'r) binst" where
  "liftSub1 st =
     bindE (sub2E (this_subExp1 st)) (\<lambda>b2.
     bindE (sub1E (this_subExp1 st)) (\<lambda>b1.
       Inr (st\<lparr>this_subExp1 := b1, this_subExp2 := b2\<rparr>)))"

text \<open>\<^verbatim>\<open>// k1 op k2, where k1 and k2 are integer constants\<close>.\<close>

definition ruleFold :: "('t, 'r) rule" where
  "ruleFold st bMod =
     (if opSub1 st = opIntConst \<and> opSub2 st = opIntConst then
        bindE (getInt (this_subExp1 st)) (\<lambda>k1.
        bindE (getInt (this_subExp2 st)) (\<lambda>k2.
        bindE (foldConst (this_op st) k1 k2) (\<lambda>r.
          case r of
            Some k \<Rightarrow> Inr (Return (Const (Ui k)) True)
          | None \<Rightarrow> Inr (Continue st bMod))))
      else Inr (Continue st bMod))"

text \<open>\<^verbatim>\<open>// x ^ x or x - x: result is zero\<close>.\<close>

definition ruleSame :: "('t, 'r) rule" where
  "ruleSame st bMod =
     (if (this_op st = opBitXor \<or> this_op st = opMinus) \<and>
         equals (this_subExp1 st) (this_subExp2 st)
      then Inr (Return (Const (Ui 0)) True)
      else Inr (Continue st bMod))"

text \<open>\<^verbatim>\<open>// turn a - b into a + -b\<close>, \<^verbatim>\<open>// doesn't count as a change\<close>: \<^verbatim>\<open>bMod\<close> is not set.\<close>

definition ruleMinusToPlus :: "('t, 'r) rule" where
  "ruleMinusToPlus st bMod =
     (if this_op st = opMinus then
        Inr (Continue (st\<lparr>this_subExp2 := Unary opNeg (this_subExp2 st),
                          this_op := opPlus, opSub2 := opNeg\<rparr>) bMod)
      else Inr (Continue st bMod))"

text \<open>\<^verbatim>\<open>// Might want to commute to put an integer constant on the RHS\<close>, \<^verbatim>\<open>// This is not counted as a modification\<close>.\<close>

definition ruleCommute :: "('t, 'r) rule" where
  "ruleCommute st bMod =
     (if opSub1 st = opIntConst \<and> (this_op st = opPlus \<or> this_op st = opMult) then
        Inr (Continue (st\<lparr>this_subExp1 := this_subExp2 st, this_subExp2 := this_subExp1 st,
                          opSub1 := opSub2 st, opSub2 := opSub1 st\<rparr>) bMod)
      else Inr (Continue st bMod))"

text \<open>\<^verbatim>\<open>// Check for exp + 0  or  exp - 0  or  exp | 0 or exp OR 0\<close>.\<close>

definition ruleZeroRight :: "('t, 'r) rule" where
  "ruleZeroRight st bMod =
     (if this_op st = opPlus \<or> this_op st = opMinus \<or> this_op st = opBitOr \<or>
         this_op st = opOr then
        bindE (sub2Int st (\<lambda>k. k = 0)) (\<lambda>c.
          if c then Inr (Return (this_subExp1 st) True) else Inr (Continue st bMod))
      else Inr (Continue st bMod))"

text \<open>\<^verbatim>\<open>// Check for exp * 0  or exp & 0  or exp AND 0\<close>.\<close>

definition ruleZeroResult :: "('t, 'r) rule" where
  "ruleZeroResult st bMod =
     (if this_op st = opMult \<or> this_op st = opMults \<or> this_op st = opBitAnd \<or>
         this_op st = opAnd then
        bindE (sub2Int st (\<lambda>k. k = 0)) (\<lambda>c.
          if c then Inr (Return (Const (Ui 0)) True) else Inr (Continue st bMod))
      else Inr (Continue st bMod))"

text \<open>\<^verbatim>\<open>// Check for exp * 1\<close>.\<close>

definition ruleTimesOne :: "('t, 'r) rule" where
  "ruleTimesOne st bMod =
     (if this_op st = opMult \<or> this_op st = opMults then
        bindE (sub2Int st (\<lambda>k. k = 1)) (\<lambda>c.
          if c then Inr (Return (this_subExp1 st) True) else Inr (Continue st bMod))
      else Inr (Continue st bMod))"

text \<open>\<^verbatim>\<open>// Check for exp AND -1 (bitwise AND)\<close>.\<close>

definition ruleAndMinusOne :: "('t, 'r) rule" where
  "ruleAndMinusOne st bMod =
     (if this_op st = opBitAnd then
        bindE (sub2Int st (\<lambda>k. k = - 1)) (\<lambda>c.
          if c then Inr (Return (this_subExp1 st) True) else Inr (Continue st bMod))
      else Inr (Continue st bMod))"

text \<open>\<^verbatim>\<open>// Check for exp AND TRUE (logical AND)\<close>.\<close>

definition ruleAndTrue :: "('t, 'r) rule" where
  "ruleAndTrue st bMod =
     (if this_op st = opAnd then
        bindE (sub2Int st (\<lambda>k. k \<noteq> 0)) (\<lambda>c.
          if c then Inr (Return (this_subExp1 st) True) else Inr (Continue st bMod))
      else Inr (Continue st bMod))"

text \<open>\<^verbatim>\<open>// Change x - 4 to x + -4 (and x - -5 to x + 5)\<close>.  The operator is no longer
  \<^verbatim>\<open>opMinus\<close> when control comes here.\<close>

definition ruleMinusConst :: "('t, 'r) rule" where
  "ruleMinusConst st bMod =
     (if this_op st = opMinus \<and> opSub2 st = opIntConst then
        bindE (getInt (this_subExp2 st)) (\<lambda>k.
        bindE (setInt (this_subExp2 st) (- k)) (\<lambda>c.
          Inr (Return (Binary opPlus (this_subExp1 st) c) True)))
      else Inr (Continue st bMod))"

text \<open>\<^verbatim>\<open>// Check for [exp] << k where k is a positive integer const\<close>.\<close>

definition ruleShiftL :: "('t, 'r) rule" where
  "ruleShiftL st bMod =
     (if this_op st = opShiftL \<and> opSub2 st = opIntConst then
        bindE (getInt (this_subExp2 st)) (\<lambda>k.
          if 0 \<le> sint k \<and> sint k < 32 then
            bindE (setInt (this_subExp2 st) (push_bit (unat k) 1)) (\<lambda>c.
              Inr (Return (Binary opMult (this_subExp1 st) c) True))
          else Inr (Continue st bMod))
      else Inr (Continue st bMod))"

text \<open>\<^verbatim>\<open>// Check for -x compare y, becomes x compare -y\<close>, \<^verbatim>\<open>// doesn't count as a change\<close>.
  The children change, the locals \<^verbatim>\<open>opSub1\<close> and \<^verbatim>\<open>opSub2\<close> do not.\<close>

definition ruleNegCompare :: "('t, 'r) rule" where
  "ruleNegCompare st bMod =
     (if isComparison (this_op st) \<and> opSub1 st = opNeg then
        bindE (sub1E (this_subExp1 st)) (\<lambda>x.
          Inr (Continue (st\<lparr>this_subExp1 := clone x,
                            this_subExp2 := Unary opNeg (this_subExp2 st)\<rparr>) bMod))
      else Inr (Continue st bMod))"

text \<open>\<^verbatim>\<open>// Check for (x + y) compare 0, becomes x compare -y\<close>.\<close>

definition rulePlusCompareZero :: "('t, 'r) rule" where
  "rulePlusCompareZero st bMod =
     (if isComparison (this_op st) then
        bindE (sub2Int st (\<lambda>k. k = 0)) (\<lambda>c.
          if c \<and> opSub1 st = opPlus then
            bindE (liftSub1 st) (\<lambda>st'.
              Inr (Return (thisExp (st'\<lparr>this_subExp2 := Unary opNeg (this_subExp2 st')\<rparr>))
                     True))
          else Inr (Continue st bMod))
      else Inr (Continue st bMod))"

text \<open>
  The rules of the shape \<^verbatim>\<open>(x cmp y) op k\<close>: when this node has operator \<open>op\<close>, a right
  child that is the constant \<open>k\<close> and a left child with operator \<open>sub\<close>, it takes over
  the children of its left child and the operator \<open>new\<close>.  They are
  \<^verbatim>\<open>(x == y) == 1, becomes x == y\<close>; \<^verbatim>\<open>(x == y) == 0, becomes x != y\<close>;
  \<^verbatim>\<open>(x == y) != 1, becomes x != y\<close>; \<^verbatim>\<open>(x > y) == 0, becomes x <= y\<close>;
  \<^verbatim>\<open>(x >u y) == 0, becomes x <=u y\<close>.
\<close>

definition ruleCompareConst :: "OPER \<Rightarrow> int32 \<Rightarrow> OPER \<Rightarrow> OPER \<Rightarrow> ('t, 'r) rule" where
  "ruleCompareConst op k sub new st bMod =
     (if this_op st = op then
        bindE (sub2Int st (\<lambda>j. j = k)) (\<lambda>c.
          if c \<and> opSub1 st = sub then
            bindE (liftSub1 st) (\<lambda>st'. Inr (Return (thisExp (st'\<lparr>this_op := new\<rparr>)) True))
          else Inr (Continue st bMod))
      else Inr (Continue st bMod))"

text \<open>\<^verbatim>\<open>// Check for x + -y == 0, becomes x == y\<close>.\<close>

definition rulePlusNegEqualsZero :: "('t, 'r) rule" where
  "rulePlusNegEqualsZero st bMod =
     (if this_op st = opEquals then
        bindE (sub2Int st (\<lambda>k. k = 0)) (\<lambda>c.
          if c \<and> opSub1 st = opPlus then
            bindE (sub2E (this_subExp1 st)) (\<lambda>b2.
              if getOper b2 = opIntConst then
                bindE (getInt b2) (\<lambda>n.
                  if sint n < 0 then
                    bindE (setInt b2 (- n)) (\<lambda>c2.
                    bindE (sub1E (this_subExp1 st)) (\<lambda>b1.
                      Inr (Return (Binary opEquals b1 c2) True)))
                  else Inr (Continue st bMod))
              else Inr (Continue st bMod))
          else Inr (Continue st bMod))
      else Inr (Continue st bMod))"

text \<open>\<^verbatim>\<open>// Check for (x == y) != 0, becomes x == y\<close>.\<close>

definition ruleNotEqualZero :: "('t, 'r) rule" where
  "ruleNotEqualZero st bMod =
     (if this_op st = opNotEqual then
        bindE (sub2Int st (\<lambda>k. k = 0)) (\<lambda>c.
          if c \<and> opSub1 st = opEquals then Inr (Return (this_subExp1 st) True)
          else Inr (Continue st bMod))
      else Inr (Continue st bMod))"

text \<open>\<^verbatim>\<open>// Check for (x <= y) || (x == y), becomes x <= y\<close>.\<close>

definition ruleOrEquals :: "('t, 'r) rule" where
  "ruleOrEquals st bMod =
     (if this_op st = opOr \<and> opSub2 st = opEquals \<and>
         (opSub1 st = opGtrEq \<or> opSub1 st = opLessEq \<or> opSub1 st = opGtrEqUns \<or>
          opSub1 st = opLessEqUns) then
        bindE (sub1E (this_subExp1 st)) (\<lambda>b11.
        bindE (sub1E (this_subExp2 st)) (\<lambda>b21.
          if equals b11 b21 then
            bindE (sub2E (this_subExp1 st)) (\<lambda>b12.
            bindE (sub2E (this_subExp2 st)) (\<lambda>b22.
              if equals b12 b22 then Inr (Return (this_subExp1 st) True)
              else if equals b11 b22 \<and> equals b12 b21 then
                Inr (Return (this_subExp1 st) True)
              else Inr (Continue st bMod)))
          else
            bindE (sub2E (this_subExp2 st)) (\<lambda>b22.
              if equals b11 b22 then
                bindE (sub2E (this_subExp1 st)) (\<lambda>b12.
                  if equals b12 b21 then Inr (Return (this_subExp1 st) True)
                  else Inr (Continue st bMod))
              else Inr (Continue st bMod))))
      else Inr (Continue st bMod))"

text \<open>The rules before the test for \<^verbatim>\<open>opOr\<close> and \<^verbatim>\<open>opAnd\<close>, in the order of the code.\<close>

definition binaryRules :: "('t, 'r) rule" where
  "binaryRules =
     chain [ruleFold, ruleSame, ruleMinusToPlus, ruleCommute, ruleZeroRight,
            ruleZeroResult, ruleTimesOne, ruleAndMinusOne, ruleAndTrue, ruleMinusConst,
            ruleShiftL, ruleNegCompare, rulePlusCompareZero,
            ruleCompareConst opEquals 1 opEquals opEquals,
            rulePlusNegEqualsZero,
            ruleCompareConst opEquals 0 opEquals opNotEqual,
            ruleCompareConst opNotEqual 1 opEquals opNotEqual,
            ruleNotEqualZero,
            ruleCompareConst opEquals 0 opGtr opLessEq,
            ruleCompareConst opEquals 0 opGtrUns opLessEqUns,
            ruleOrEquals]"

definition setSubExp2 :: "('t, 'r) Exp \<Rightarrow> ('t, 'r) Exp \<Rightarrow> error + ('t, 'r) Exp" where
  "setSubExp2 e n =
     (case e of
        Binary op e1 e2 \<Rightarrow> Inr (Binary op e1 n)
      | Ternary op e1 e2 e3 \<Rightarrow> Inr (Ternary op e1 n e3)
      | AssignExp sz e1 e2 \<Rightarrow> Inr (AssignExp sz e1 n)
      | _ \<Rightarrow> Inl BadCast)"

text \<open>The rules after it, reached when the operator is neither.\<close>

text \<open>\<^verbatim>\<open>// check for (x & x), becomes x\<close>.\<close>

definition ruleAndSame :: "('t, 'r) rule" where
  "ruleAndSame st bMod =
     (if this_op st = opBitAnd \<and> equals (this_subExp1 st) (this_subExp2 st) then
        Inr (Return (this_subExp1 st) True)
      else Inr (Continue st bMod))"

text \<open>\<^verbatim>\<open>// check for a + a*n, becomes a*(n+1) where n is an int\<close>.\<close>

definition rulePlusMult :: "('t, 'r) rule" where
  "rulePlusMult st bMod =
     (if this_op st = opPlus \<and> opSub2 st = opMult then
        bindE (sub1E (this_subExp2 st)) (\<lambda>a.
          if equals (this_subExp1 st) a then
            bindE (sub2E (this_subExp2 st)) (\<lambda>n.
              if getOper n = opIntConst then
                bindE (getInt n) (\<lambda>k.
                bindE (setInt n (k + 1)) (\<lambda>n'.
                bindE (setSubExp2 (this_subExp2 st) n') (\<lambda>res.
                  Inr (Return res True))))
              else Inr (Continue st bMod))
          else Inr (Continue st bMod))
      else Inr (Continue st bMod))"

text \<open>\<^verbatim>\<open>// check for a*n*m, becomes a*(n*m) where n and m are ints\<close>.\<close>

definition ruleMultMult :: "('t, 'r) rule" where
  "ruleMultMult st bMod =
     (if this_op st = opMult \<and> opSub1 st = opMult \<and> opSub2 st = opIntConst then
        bindE (sub2E (this_subExp1 st)) (\<lambda>n.
          if getOper n = opIntConst then
            bindE (getInt (this_subExp2 st)) (\<lambda>m.
            bindE (getInt n) (\<lambda>k.
            bindE (setInt n (k * m)) (\<lambda>n'.
            bindE (setSubExp2 (this_subExp1 st) n') (\<lambda>res.
              Inr (Return res True)))))
          else Inr (Continue st bMod))
      else Inr (Continue st bMod))"

text \<open>\<^verbatim>\<open>// check for !(a == b) becomes a != b\<close> and \<^verbatim>\<open>// check for !(a != b) becomes a == b\<close>.\<close>

definition ruleLNot :: "('t, 'r) rule" where
  "ruleLNot st bMod =
     (if this_op st = opLNot \<and> opSub1 st = opEquals then
        Inr (Return (setOper (this_subExp1 st) opNotEqual) True)
      else if this_op st = opLNot \<and> opSub1 st = opNotEqual then
        Inr (Return (setOper (this_subExp1 st) opEquals) True)
      else Inr (Continue st bMod))"

definition binaryTail :: "('t, 'r) binst \<Rightarrow> bool \<Rightarrow> error + ('t, 'r) Exp \<times> bool" where
  "binaryTail st bMod =
     (case chain [ruleAndSame, rulePlusMult, ruleMultMult, ruleLNot] st bMod of
        Inl e \<Rightarrow> Inl e
      | Inr (Return res b) \<Rightarrow> Inr (res, b)
      | Inr (Continue st' b) \<Rightarrow> Inr (thisExp st', b))"

text \<open>
  \<^verbatim>\<open>Unary::polySimplify\<close> after the child is simplified, for every operator but
  \<^verbatim>\<open>opMemOf\<close> and \<^verbatim>\<open>opRegOf\<close> (which simplify the child once more).
\<close>

definition unaryRules ::
  "OPER \<Rightarrow> ('t, 'r) Exp \<Rightarrow> bool \<Rightarrow> error + ('t, 'r) Exp \<times> bool" where
  "unaryRules op subExp1 bMod =
     (if op = opNeg \<or> op = opNot \<or> op = opLNot \<or> op = opSize then
        (let subOP = getOper subExp1 in
         if subOP = opIntConst then
           bindE (getInt subExp1) (\<lambda>k.
           bindE (setInt subExp1
                    (if op = opNeg then - k
                     else if op = opNot then NOT k
                     else if op = opLNot then boolInt (k = 0)
                     else k)) (\<lambda>res. Inr (res, True)))
         else if (op = opNot \<or> op = opLNot) \<and> subOP = opEquals then
           Inr (setOper subExp1 opNotEqual, True)
         else if op = subOP then
           bindE (sub1E subExp1) (\<lambda>res. Inr (res, True))
         else Inr (Unary op subExp1, bMod))
      else if op = opAddrOf then
        (if getOper subExp1 = opMemOf then
           bindE (sub1E subExp1) (\<lambda>res. Inr (res, True))
         else Inr (Unary op subExp1, bMod))
      else Inr (Unary op subExp1, bMod))"

definition ternaryRules ::
  "OPER \<Rightarrow> ('t, 'r) Exp \<Rightarrow> ('t, 'r) Exp \<Rightarrow> ('t, 'r) Exp \<Rightarrow> bool
     \<Rightarrow> error + ('t, 'r) Exp \<times> bool" where
  "ternaryRules op subExp1 subExp2 subExp3 bMod =
     (if getOper subExp2 = opIntConst \<and> getOper subExp3 = opIntConst then
        bindE (getInt subExp2) (\<lambda>s2.
          if s2 = 1 then
            bindE (getInt subExp3) (\<lambda>s3.
              if s3 = 0 then Inr (subExp1, True)
              else Inr (Ternary op subExp1 subExp2 subExp3, bMod))
          else Inr (Ternary op subExp1 subExp2 subExp3, bMod))
      else Inr (Ternary op subExp1 subExp2 subExp3, bMod))"

text \<open>
  The result of a run that ends is \<open>Some\<close> of a failure or of the value; \<open>None\<close> is
  a run that does not end.
\<close>

definition bindP ::
  "(error + 'a) option \<Rightarrow> ('a \<Rightarrow> (error + 'b) option) \<Rightarrow> (error + 'b) option" where
  "bindP m f = Option.bind m (\<lambda>r. case r of Inl e \<Rightarrow> Some (Inl e) | Inr v \<Rightarrow> f v)"

lemma bindP_mono [partial_function_mono]:
  assumes mf: "mono_option B" and mg: "\<And>y. mono_option (\<lambda>f. C y f)"
  shows "mono_option (\<lambda>f. bindP (B f) (\<lambda>y. C y f))"
  unfolding bindP_def
proof (rule bind_mono [OF mf])
  fix y :: "error + 'c"
  show "mono_option (\<lambda>f. case y of Inl e \<Rightarrow> Some (Inl e) | Inr v \<Rightarrow> C v f)"
    by (cases y) (simp_all add: mg option.const_mono)
qed

text \<open>
  \<^verbatim>\<open>polySimplify\<close> takes \<^verbatim>\<open>bMod\<close> by reference; the model takes its value and returns
  the new one with the result.  The virtual call selects the version of the object's
  class; \<^verbatim>\<open>FlagDef\<close> has that of \<^verbatim>\<open>Unary\<close>, whose \<^verbatim>\<open>switch\<close> has no label for
  \<^verbatim>\<open>opFlagDef\<close>.

  \<^verbatim>\<open>Const\<close> and \<^verbatim>\<open>Terminal\<close> inherit the version of \<^verbatim>\<open>Exp\<close>, which is in a header that
  is not among the sources.  It returns the object; what it stores in \<^verbatim>\<open>bMod\<close> is the
  parameter \<open>leaf\<close>, applied to the value \<^verbatim>\<open>bMod\<close> has at the call.
\<close>

partial_function (option) polySimplify ::
  "(bool \<Rightarrow> bool) \<Rightarrow> ('t, 'r) Exp \<Rightarrow> bool \<Rightarrow> (error + ('t, 'r) Exp \<times> bool) option" where
  "polySimplify leaf e bMod =
     (case e of
        Const c \<Rightarrow> Some (Inr (Const c, leaf bMod))
      | Terminal op \<Rightarrow> Some (Inr (Terminal op, leaf bMod))
      | Unary op e1 \<Rightarrow>
          bindP (polySimplify leaf e1 bMod) (\<lambda>(s1, b1).
            if op = opMemOf \<or> op = opRegOf then
              bindP (polySimplify leaf s1 b1) (\<lambda>(s1', b2).
                Some (bindE (simplifyArith s1') (\<lambda>s1''. Inr (Unary op s1'', b2))))
            else Some (unaryRules op s1 b1))
      | FlagDef e1 rtl \<Rightarrow>
          bindP (polySimplify leaf e1 bMod) (\<lambda>(s1, b1). Some (Inr (FlagDef s1 rtl, b1)))
      | Binary op e1 e2 \<Rightarrow>
          bindP (polySimplify leaf e1 bMod) (\<lambda>(s1, b1).
          bindP (polySimplify leaf e2 b1) (\<lambda>(s2, b2).
          bindP (Some (binaryRules
                   \<lparr>this_op = op, this_subExp1 = s1, this_subExp2 = s2,
                    opSub1 = getOper s1, opSub2 = getOper s2\<rparr> b2)) (\<lambda>fl.
            case fl of
              Return res b \<Rightarrow> Some (Inr (res, b))
            | Continue st b \<Rightarrow>
                if this_op st = opOr \<or> this_op st = opAnd then
                  bindP (polySimplify leaf (this_subExp1 st) b) (\<lambda>(t1, c1).
                  bindP (polySimplify leaf (this_subExp2 st) c1) (\<lambda>(t2, c2).
                    Some (Inr (Binary (this_op st) t1 t2, c2))))
                else Some (binaryTail st b))))
      | Ternary op e1 e2 e3 \<Rightarrow>
          bindP (polySimplify leaf e1 bMod) (\<lambda>(s1, b1).
          bindP (polySimplify leaf e2 b1) (\<lambda>(s2, b2).
          bindP (polySimplify leaf e3 b2) (\<lambda>(s3, b3).
            Some (ternaryRules op s1 s2 s3 b3))))
      | TypedExp ty e1 \<Rightarrow>
          if getOper e1 = opAssignExp then Some (Inl AssertFailed)
          else bindP (polySimplify leaf e1 bMod) (\<lambda>(s1, b1). Some (Inr (TypedExp ty s1, b1)))
      | AssignExp sz e1 e2 \<Rightarrow>
          bindP (polySimplify leaf e1 bMod) (\<lambda>(s1, b1).
          bindP (polySimplify leaf e2 b1) (\<lambda>(s2, b2).
            Some (Inr (AssignExp sz s1 s2, b2)))))"

text \<open>
  \<^verbatim>\<open>Exp::simplify\<close>: the loop \<^verbatim>\<open>do { bMod = false; res = res->polySimplify(bMod); }
  while (bMod);\<close>.
\<close>

partial_function (option) simplify ::
  "(bool \<Rightarrow> bool) \<Rightarrow> ('t, 'r) Exp \<Rightarrow> (error + ('t, 'r) Exp) option" where
  "simplify leaf res =
     bindP (polySimplify leaf res False) (\<lambda>(res', bMod).
       if bMod then simplify leaf res' else Some (Inr res'))"

subsection \<open>Replacement and \<^verbatim>\<open>fixSuccessor\<close>\<close>

text \<open>Writing a pointer at an address: \<^verbatim>\<open>*pp = r\<close>.\<close>

fun assign :: "('t, 'r) Exp \<Rightarrow> slot \<Rightarrow> ('t, 'r) Exp \<Rightarrow> ('t, 'r) Exp" where
  "assign e [] r = r"
| "assign (Unary op e1) (n # ns) r = (if n = 1 then Unary op (assign e1 ns r) else Unary op e1)"
| "assign (Binary op e1 e2) (n # ns) r =
     (if n = 1 then Binary op (assign e1 ns r) e2
      else if n = 2 then Binary op e1 (assign e2 ns r)
      else Binary op e1 e2)"
| "assign (Ternary op e1 e2 e3) (n # ns) r =
     (if n = 1 then Ternary op (assign e1 ns r) e2 e3
      else if n = 2 then Ternary op e1 (assign e2 ns r) e3
      else if n = 3 then Ternary op e1 e2 (assign e3 ns r)
      else Ternary op e1 e2 e3)"
| "assign (TypedExp ty e1) (n # ns) r =
     (if n = 1 then TypedExp ty (assign e1 ns r) else TypedExp ty e1)"
| "assign (AssignExp sz e1 e2) (n # ns) r =
     (if n = 1 then AssignExp sz (assign e1 ns r) e2
      else if n = 2 then AssignExp sz e1 (assign e2 ns r)
      else AssignExp sz e1 e2)"
| "assign (FlagDef e1 rtl) (n # ns) r =
     (if n = 1 then FlagDef (assign e1 ns r) rtl else FlagDef e1 rtl)"
| "assign (Const c) (n # ns) r = Const c"
| "assign (Terminal op) (n # ns) r = Terminal op"

text \<open>
  \<^verbatim>\<open>searchReplaceAll\<close> collects every match, then walks the list: it deletes the tree a
  pointer holds and stores a copy of the replacement there.  With \<^verbatim>\<open>once\<close> it returns
  after the first.  Without, a later pointer may lie inside a tree an earlier step has
  deleted (a match inside a match); the write then goes to freed memory, which the model
  reports as \<open>UseAfterFree\<close>.  The result is the pair of the returned tree and the final
  value of \<^verbatim>\<open>change\<close>.
\<close>

fun replaceEach ::
  "slot list \<Rightarrow> slot list \<Rightarrow> ('t, 'r) Exp \<Rightarrow> ('t, 'r) Exp \<Rightarrow> error + ('t, 'r) Exp" where
  "replaceEach done [] root replace = Inr root"
| "replaceEach done (pp # li) root replace =
     (if \<exists>d \<in> set done. take (length d) pp = d then Inl UseAfterFree
      else replaceEach (done @ [pp]) li (assign root pp (clone replace)) replace)"

definition searchReplaceAll ::
  "('t, 'r) Exp \<Rightarrow> ('t, 'r) Exp \<Rightarrow> ('t, 'r) Exp \<Rightarrow> bool \<Rightarrow> error + ('t, 'r) Exp \<times> bool" where
  "searchReplaceAll this pattern replace once =
     (case doSearch pattern this [] [] False of
        [] \<Rightarrow> Inr (this, False)
      | pp # li \<Rightarrow>
          if once then Inr (assign this pp (clone replace), True)
          else bindE (replaceEach [] (pp # li) this replace) (\<lambda>root. Inr (root, True)))"

definition searchReplace ::
  "('t, 'r) Exp \<Rightarrow> ('t, 'r) Exp \<Rightarrow> ('t, 'r) Exp \<Rightarrow> error + ('t, 'r) Exp \<times> bool" where
  "searchReplace this pattern replace = searchReplaceAll this pattern replace True"

definition setSubExp1 :: "('t, 'r) Exp \<Rightarrow> ('t, 'r) Exp \<Rightarrow> error + ('t, 'r) Exp" where
  "setSubExp1 e n =
     (case e of
        Unary op e1 \<Rightarrow> Inr (Unary op n)
      | Binary op e1 e2 \<Rightarrow> Inr (Binary op n e2)
      | Ternary op e1 e2 e3 \<Rightarrow> Inr (Ternary op n e2 e3)
      | TypedExp ty e1 \<Rightarrow> Inr (TypedExp ty n)
      | AssignExp sz e1 e2 \<Rightarrow> Inr (AssignExp sz n e2)
      | FlagDef e1 rtl \<Rightarrow> Inr (FlagDef n rtl)
      | _ \<Rightarrow> Inl BadCast)"

text \<open>The static pattern \<^verbatim>\<open>succRegOf\<close>: \<^verbatim>\<open>succ(r[WILD])\<close>.\<close>

definition succRegOf :: "('t, 'r) Exp" where
  "succRegOf = Unary opSuccessor (Unary opRegOf (Terminal opWild))"

definition fixSuccessor :: "('t, 'r) Exp \<Rightarrow> error + ('t, 'r) Exp" where
  "fixSuccessor this =
     (case search this succRegOf of
        (True, Some result) \<Rightarrow>
          bindE (sub1E result) (\<lambda>sub1.
            if getOper sub1 \<noteq> opRegOf then Inl AssertFailed
            else bindE (sub1E sub1) (\<lambda>sub2.
              if getOper sub2 \<noteq> opIntConst then Inl AssertFailed
              else bindE (sub1E (clone sub1)) (\<lambda>c.
                   bindE (getInt c) (\<lambda>k.
                   bindE (setInt c (k + 1)) (\<lambda>c'.
                   bindE (setSubExp1 (clone sub1) c') (\<lambda>replace.
                   bindE (searchReplace this result replace) (\<lambda>(res, change).
                     Inr res)))))))
      | _ \<Rightarrow> Inr this)"

text \<open>
  Replacing the first subtree in pre-order that satisfies \<open>Q\<close>, everything else kept:
  the reading of the specification's \<open>fix_successor\<close> for a single occurrence.
\<close>

fun replaceFirst ::
  "(('t, 'r) Exp \<Rightarrow> bool) \<Rightarrow> ('t, 'r) Exp \<Rightarrow> ('t, 'r) Exp \<Rightarrow> ('t, 'r) Exp" where
  "replaceFirst Q r (Const c) = (if Q (Const c) then r else Const c)"
| "replaceFirst Q r (Terminal op) = (if Q (Terminal op) then r else Terminal op)"
| "replaceFirst Q r (Unary op e1) =
     (if Q (Unary op e1) then r else Unary op (replaceFirst Q r e1))"
| "replaceFirst Q r (Binary op e1 e2) =
     (if Q (Binary op e1 e2) then r
      else if \<exists>s \<in> set (preorder e1). Q s then Binary op (replaceFirst Q r e1) e2
      else Binary op e1 (replaceFirst Q r e2))"
| "replaceFirst Q r (Ternary op e1 e2 e3) =
     (if Q (Ternary op e1 e2 e3) then r
      else if \<exists>s \<in> set (preorder e1). Q s then Ternary op (replaceFirst Q r e1) e2 e3
      else if \<exists>s \<in> set (preorder e2). Q s then Ternary op e1 (replaceFirst Q r e2) e3
      else Ternary op e1 e2 (replaceFirst Q r e3))"
| "replaceFirst Q r (TypedExp ty e1) =
     (if Q (TypedExp ty e1) then r else TypedExp ty (replaceFirst Q r e1))"
| "replaceFirst Q r (AssignExp sz e1 e2) =
     (if Q (AssignExp sz e1 e2) then r
      else if \<exists>s \<in> set (preorder e1). Q s then AssignExp sz (replaceFirst Q r e1) e2
      else AssignExp sz e1 (replaceFirst Q r e2))"
| "replaceFirst Q r (FlagDef e1 rtl) =
     (if Q (FlagDef e1 rtl) then r else FlagDef (replaceFirst Q r e1) rtl)"

subsection \<open>Serialization\<close>

text \<open>
  A stream is the sequence of its bytes (\<^verbatim>\<open>char\<close>).  The helpers that write and read
  one field (\<^verbatim>\<open>saveValue\<close>, \<^verbatim>\<open>loadValue\<close>, \<^verbatim>\<open>saveString\<close>, \<^verbatim>\<open>loadString\<close>,
  \<^verbatim>\<open>saveFID\<close>, \<^verbatim>\<open>loadFID\<close>, \<^verbatim>\<open>saveLen\<close>, \<^verbatim>\<open>loadLen\<close>), the constant
  \<^verbatim>\<open>FID_EXP_END\<close>, the numbering of \<^verbatim>\<open>OPER\<close> behind the casts \<^verbatim>\<open>(int)op\<close> and
  \<^verbatim>\<open>(OPER)iop\<close>, and the serializers of \<^verbatim>\<open>Type\<close> and \<^verbatim>\<open>RTL\<close> are not among the
  sources: they are the fields of the parameter \<open>io\<close>.  A save helper gives the bytes it
  appends; a load helper gives the value it reads and the rest of the stream.
\<close>

record ('t, 'r) io =
  saveChar :: "char \<Rightarrow> string"
  loadChar :: "string \<Rightarrow> char \<times> string"
  saveInt :: "int32 \<Rightarrow> string"
  loadInt :: "string \<Rightarrow> int32 \<times> string"
  saveDouble :: "double \<Rightarrow> string"
  loadDouble :: "string \<Rightarrow> double \<times> string"
  saveString :: "string \<Rightarrow> string"
  loadString :: "string \<Rightarrow> string \<times> string"
  saveFID :: "nat \<Rightarrow> string"
  loadFID :: "string \<Rightarrow> nat \<times> string"
  saveLen :: "nat \<Rightarrow> string"
  loadLen :: "string \<Rightarrow> nat \<times> string"
  FID_EXP_END :: nat
  fromOPER :: "OPER \<Rightarrow> int32"
  toOPER :: "int32 \<Rightarrow> OPER"
  typeSerialize :: "'t \<Rightarrow> string"
  typeDeserialize :: "string \<Rightarrow> 't \<times> string"
  rtlSerialize :: "'r \<Rightarrow> string"
  rtlDeserialize :: "string \<Rightarrow> 'r \<times> string"

text \<open>
  \<^verbatim>\<open>serialize\<close> returns \<^verbatim>\<open>true\<close> and stores in \<^verbatim>\<open>len\<close> the number of bytes it wrote;
  the model gives the bytes.  Every version writes its tag, the operator, its payload
  and children, and the end marker \<^verbatim>\<open>FID_EXP_END\<close> with length 0.
\<close>

definition endMarker :: "('t, 'r) io \<Rightarrow> string" where
  "endMarker io = saveFID io (FID_EXP_END io) @ saveLen io 0"

fun serialize :: "('t, 'r) io \<Rightarrow> ('t, 'r) Exp \<Rightarrow> string" where
  "serialize io (Const c) =
     saveChar io CHR ''C'' @ saveInt io (fromOPER io (constOper c)) @
     (case c of
        Ui i \<Rightarrow> saveInt io i
      | Ud d \<Rightarrow> saveDouble io d
      | Up p \<Rightarrow> saveString io p) @
     endMarker io"
| "serialize io (Terminal op) =
     saveChar io CHR ''t'' @ saveInt io (fromOPER io op) @ endMarker io"
| "serialize io (Unary op e1) =
     saveChar io CHR ''U'' @ saveInt io (fromOPER io op) @ serialize io e1 @ endMarker io"
| "serialize io (Binary op e1 e2) =
     saveChar io CHR ''B'' @ saveInt io (fromOPER io op) @
     serialize io e1 @ serialize io e2 @ endMarker io"
| "serialize io (Ternary op e1 e2 e3) =
     saveChar io CHR ''T'' @ saveInt io (fromOPER io op) @
     serialize io e1 @ serialize io e2 @ serialize io e3 @ endMarker io"
| "serialize io (TypedExp ty e1) =
     saveChar io CHR ''y'' @ saveInt io (fromOPER io opTypedExp) @
     typeSerialize io ty @ serialize io e1 @ endMarker io"
| "serialize io (AssignExp sz e1 e2) =
     saveChar io CHR ''A'' @ saveInt io (fromOPER io opAssignExp) @ saveInt io sz @
     serialize io e1 @ serialize io e2 @ endMarker io"
| "serialize io (FlagDef e1 rtl) =
     saveChar io CHR ''F'' @ saveInt io (fromOPER io opFlagDef) @
     serialize io e1 @ rtlSerialize io rtl @ endMarker io"

text \<open>
  What \<^verbatim>\<open>Exp::deserialize\<close> returns is a pointer: \<^verbatim>\<open>NULL\<close>, or a node made by
  \<^verbatim>\<open>new\<close>.  The constructors store the child pointers they are given as they are,
  null or not (\<^verbatim>\<open>subExp1 = e;\<close>), so a new node may sit on a null child.
\<close>

datatype ('t, 'r) ExpPtr =
    NULL
  | newConst cval
  | newTerminal OPER
  | newUnary OPER "('t, 'r) ExpPtr"
  | newBinary OPER "('t, 'r) ExpPtr" "('t, 'r) ExpPtr"
  | newTernary OPER "('t, 'r) ExpPtr" "('t, 'r) ExpPtr" "('t, 'r) ExpPtr"
  | newTypedExp 't "('t, 'r) ExpPtr"
  | newAssignExp int32 "('t, 'r) ExpPtr" "('t, 'r) ExpPtr"
  | newFlagDef "('t, 'r) ExpPtr" 'r

text \<open>The pointer to an expression of the data model: no null pointer anywhere in it.\<close>

fun ptr :: "('t, 'r) Exp \<Rightarrow> ('t, 'r) ExpPtr" where
  "ptr (Const c) = newConst c"
| "ptr (Terminal op) = newTerminal op"
| "ptr (Unary op e1) = newUnary op (ptr e1)"
| "ptr (Binary op e1 e2) = newBinary op (ptr e1) (ptr e2)"
| "ptr (Ternary op e1 e2 e3) = newTernary op (ptr e1) (ptr e2) (ptr e3)"
| "ptr (TypedExp ty e1) = newTypedExp ty (ptr e1)"
| "ptr (AssignExp sz e1 e2) = newAssignExp sz (ptr e1) (ptr e2)"
| "ptr (FlagDef e1 rtl) = newFlagDef (ptr e1) rtl"

text \<open>
  The end of \<^verbatim>\<open>Exp::deserialize\<close>:
  \<^verbatim>\<open>if (e) { assert(loadFID(inf) == FID_EXP_END); assert(loadLen(inf) == 0); } return e;\<close>
  Both \<^verbatim>\<open>assert\<close>s read from the stream; they are taken as compiled in.  Only the
  pointer \<^verbatim>\<open>e\<close> itself is tested, not the children of the node it points to.
\<close>

definition finish ::
  "('t, 'r) io \<Rightarrow> ('t, 'r) ExpPtr \<Rightarrow> string \<Rightarrow> error + ('t, 'r) ExpPtr \<times> string" where
  "finish io e ins =
     (if e = NULL then Inr (e, ins)
      else (case loadFID io ins of (fid, ins1) \<Rightarrow>
        (if fid \<noteq> FID_EXP_END io then Inl AssertFailed
         else (case loadLen io ins1 of (len, ins2) \<Rightarrow>
           (if len \<noteq> 0 then Inl AssertFailed
            else Inr (e, ins2))))))"

text \<open>\<^verbatim>\<open>strdup(s.c_str())\<close> copies the characters before the first NUL.\<close>

definition c_str :: "string \<Rightarrow> string" where
  "c_str s = takeWhile (\<lambda>c. c \<noteq> CHR 0x00) s"

text \<open>
  \<^verbatim>\<open>Exp::deserialize\<close>.  The result is the returned pointer and the rest of the stream.
  An unknown tag and an unknown operator of a constant print a warning and leave \<^verbatim>\<open>e\<close>
  null: the end marker is then not read, and neither is anything else of the record.  A
  record with children reads each child by a call of its own and builds its node around
  whatever pointers come back.
\<close>

partial_function (option) deserialize ::
  "('t, 'r) io \<Rightarrow> string \<Rightarrow> (error + ('t, 'r) ExpPtr \<times> string) option" where
  "deserialize io ins =
     (case loadChar io ins of (ch, ins1) \<Rightarrow>
      case loadInt io ins1 of (iop, ins2) \<Rightarrow>
      let op = toOPER io iop in
      if ch = CHR ''C'' then
        (if op = opIntConst then
           (case loadInt io ins2 of (i, ins3) \<Rightarrow>
              Some (finish io (newConst (Ui i)) ins3))
         else if op = opFltConst then
           (case loadDouble io ins2 of (d, ins3) \<Rightarrow>
              Some (finish io (newConst (Ud d)) ins3))
         else if op = opStrConst then
           (case loadString io ins2 of (s, ins3) \<Rightarrow>
              Some (finish io (newConst (Up (c_str s))) ins3))
         else Some (finish io NULL ins2))
      else if ch = CHR ''t'' then Some (finish io (newTerminal op) ins2)
      else if ch = CHR ''U'' then
        bindP (deserialize io ins2) (\<lambda>(e1, ins3).
          Some (finish io (newUnary op e1) ins3))
      else if ch = CHR ''B'' then
        bindP (deserialize io ins2) (\<lambda>(e1, ins3).
        bindP (deserialize io ins3) (\<lambda>(e2, ins4).
          Some (finish io (newBinary op e1 e2) ins4)))
      else if ch = CHR ''T'' then
        bindP (deserialize io ins2) (\<lambda>(e1, ins3).
        bindP (deserialize io ins3) (\<lambda>(e2, ins4).
        bindP (deserialize io ins4) (\<lambda>(e3, ins5).
          Some (finish io (newTernary op e1 e2 e3) ins5))))
      else if ch = CHR ''y'' then
        (case typeDeserialize io ins2 of (t, ins3) \<Rightarrow>
           bindP (deserialize io ins3) (\<lambda>(e1, ins4).
             Some (finish io (newTypedExp t e1) ins4)))
      else if ch = CHR ''A'' then
        (case loadInt io ins2 of (sz, ins3) \<Rightarrow>
           bindP (deserialize io ins3) (\<lambda>(e1, ins4).
           bindP (deserialize io ins4) (\<lambda>(e2, ins5).
             Some (finish io (newAssignExp sz e1 e2) ins5))))
      else if ch = CHR ''F'' then
        bindP (deserialize io ins2) (\<lambda>(e1, ins3).
          case rtlDeserialize io ins3 of (r, ins4) \<Rightarrow>
            Some (finish io (newFlagDef e1 r) ins4))
      else Some (finish io NULL ins2))"

text \<open>
  What the round trip asks of the helpers: each fixed-size field, the end marker and
  its length are read back as written, whatever follows them in the stream.
\<close>

definition io_ok :: "('t, 'r) io \<Rightarrow> bool" where
  "io_ok io \<longleftrightarrow>
     (\<forall>c rest. loadChar io (saveChar io c @ rest) = (c, rest)) \<and>
     (\<forall>k rest. loadInt io (saveInt io k @ rest) = (k, rest)) \<and>
     (\<forall>d rest. loadDouble io (saveDouble io d @ rest) = (d, rest)) \<and>
     (\<forall>rest. loadFID io (saveFID io (FID_EXP_END io) @ rest) = (FID_EXP_END io, rest)) \<and>
     (\<forall>rest. loadLen io (saveLen io 0 @ rest) = (0, rest))"

text \<open>
  What it asks of the expression: the operators that \<^verbatim>\<open>deserialize\<close> uses survive the
  two casts; a string constant is a C string (no NUL inside) that \<^verbatim>\<open>loadString\<close> reads
  back; a type or RTL handle is read back by its own deserializer.
\<close>

fun serializable :: "('t, 'r) io \<Rightarrow> ('t, 'r) Exp \<Rightarrow> bool" where
  "serializable io (Const c) =
     (toOPER io (fromOPER io (constOper c)) = constOper c \<and>
      (case c of
         Up p \<Rightarrow> CHR 0x00 \<notin> set p \<and> (\<forall>rest. loadString io (saveString io p @ rest) = (p, rest))
       | _ \<Rightarrow> True))"
| "serializable io (Terminal op) = (toOPER io (fromOPER io op) = op)"
| "serializable io (Unary op e1) = (toOPER io (fromOPER io op) = op \<and> serializable io e1)"
| "serializable io (Binary op e1 e2) =
     (toOPER io (fromOPER io op) = op \<and> serializable io e1 \<and> serializable io e2)"
| "serializable io (Ternary op e1 e2 e3) =
     (toOPER io (fromOPER io op) = op \<and> serializable io e1 \<and> serializable io e2 \<and>
      serializable io e3)"
| "serializable io (TypedExp ty e1) =
     ((\<forall>rest. typeDeserialize io (typeSerialize io ty @ rest) = (ty, rest)) \<and>
      serializable io e1)"
| "serializable io (AssignExp sz e1 e2) = (serializable io e1 \<and> serializable io e2)"
| "serializable io (FlagDef e1 rtl) =
     (serializable io e1 \<and>
      (\<forall>rest. rtlDeserialize io (rtlSerialize io rtl @ rest) = (rtl, rest)))"

text \<open>
  A floating-point constant that is a NaN differs from itself under \<^verbatim>\<open>operator==\<close>:
  a tree is comparable when it holds none.
\<close>

fun comparable :: "('t, 'r) Exp \<Rightarrow> bool" where
  "comparable (Const c) = (case c of Ud d \<Rightarrow> \<not> dbl_isnan d | _ \<Rightarrow> True)"
| "comparable (Terminal op) = True"
| "comparable (Unary op e1) = comparable e1"
| "comparable (Binary op e1 e2) = (comparable e1 \<and> comparable e2)"
| "comparable (Ternary op e1 e2 e3) = (comparable e1 \<and> comparable e2 \<and> comparable e3)"
| "comparable (TypedExp ty e1) = comparable e1"
| "comparable (AssignExp sz e1 e2) = (comparable e1 \<and> comparable e2)"
| "comparable (FlagDef e1 rtl) = comparable e1"

text \<open>
  An instance of the helpers, used to exercise the theorems: a character is one byte,
  an \<^verbatim>\<open>int\<close> four bytes and a \<^verbatim>\<open>double\<close> eight, least significant first; a string is
  its length as an \<^verbatim>\<open>int\<close> and then its bytes; the marker is two bytes and a length
  one; an operator is numbered by \<open>opNumber\<close>; a type handle is a bit size written as an
  \<^verbatim>\<open>int\<close>; an RTL handle is a string.
\<close>

fun nat_bytes :: "nat \<Rightarrow> nat \<Rightarrow> string" where
  "nat_bytes 0 v = []"
| "nat_bytes (Suc n) v = char_of (v mod 256) # nat_bytes n (v div 256)"

fun bytes_nat :: "string \<Rightarrow> nat" where
  "bytes_nat [] = 0"
| "bytes_nat (c # cs) = of_char c + 256 * bytes_nat cs"

definition loadBytes :: "nat \<Rightarrow> string \<Rightarrow> nat \<times> string" where
  "loadBytes n ins = (bytes_nat (take n ins), drop n ins)"

definition loadStr :: "string \<Rightarrow> string \<times> string" where
  "loadStr ins =
     (case loadBytes 4 ins of (n, ins1) \<Rightarrow> (take n ins1, drop n ins1))"

fun opNumber :: "OPER \<Rightarrow> nat" where
  "opNumber opWild = 0"
| "opNumber opPlus = 1"
| "opNumber opMinus = 2"
| "opNumber opRegOf = 3"
| "opNumber opIntConst = 4"
| "opNumber opFltConst = 5"
| "opNumber opStrConst = 6"
| "opNumber opPC = 7"
| "opNumber opTypedExp = 8"
| "opNumber opAssignExp = 9"
| "opNumber opFlagDef = 10"
| "opNumber opTern = 11"
| "opNumber (opOther n) = 100 + n"
| "opNumber op = 99"

definition numberOp :: "nat \<Rightarrow> OPER" where
  "numberOp n =
     (case find (\<lambda>op. opNumber op = n)
             [opWild, opPlus, opMinus, opRegOf, opIntConst, opFltConst, opStrConst, opPC,
              opTypedExp, opAssignExp, opFlagDef, opTern] of
        Some op \<Rightarrow> op
      | None \<Rightarrow> opOther (n - 100))"

definition exampleIO :: "(int32, string) io" where
  "exampleIO =
     \<lparr>saveChar = (\<lambda>c. [c]),
      loadChar = (\<lambda>ins. case ins of [] \<Rightarrow> (CHR 0x00, []) | c # rest \<Rightarrow> (c, rest)),
      saveInt = (\<lambda>k. nat_bytes 4 (unat k)),
      loadInt = (\<lambda>ins. case loadBytes 4 ins of (n, rest) \<Rightarrow> (word_of_nat n, rest)),
      saveDouble = (\<lambda>d. nat_bytes 8 (unat d)),
      loadDouble = (\<lambda>ins. case loadBytes 8 ins of (n, rest) \<Rightarrow> (word_of_nat n, rest)),
      saveString = (\<lambda>s. nat_bytes 4 (length s) @ s),
      loadString = loadStr,
      saveFID = nat_bytes 2,
      loadFID = loadBytes 2,
      saveLen = nat_bytes 1,
      loadLen = loadBytes 1,
      FID_EXP_END = 0x7E,
      fromOPER = (\<lambda>op. word_of_nat (opNumber op)),
      toOPER = (\<lambda>k. numberOp (unat k)),
      typeSerialize = (\<lambda>ty. nat_bytes 4 (unat ty)),
      typeDeserialize = (\<lambda>ins. case loadBytes 4 ins of (n, rest) \<Rightarrow> (word_of_nat n, rest)),
      rtlSerialize = (\<lambda>s. nat_bytes 4 (length s) @ s),
      rtlDeserialize = loadStr\<rparr>"

text \<open>
  The addresses of the matching pointers relative to the root, in the order in which a
  search for all matches meets them; used to state what \<open>doSearch\<close> computes.
\<close>

fun hits :: "('t, 'r) Exp \<Rightarrow> ('t, 'r) Exp \<Rightarrow> slot list" where
  "hits pat (Const c) = (if equals pat (Const c) then [[]] else [])"
| "hits pat (Terminal op) = (if equals pat (Terminal op) then [[]] else [])"
| "hits pat (Unary op e1) =
     (if equals pat (Unary op e1) then [[]] else []) @ map ((#) 1) (hits pat e1)"
| "hits pat (Binary op e1 e2) =
     (if equals pat (Binary op e1 e2) then [[]] else []) @
     map ((#) 1) (hits pat e1) @ map ((#) 2) (hits pat e2)"
| "hits pat (Ternary op e1 e2 e3) =
     (if equals pat (Ternary op e1 e2 e3) then [[]] else []) @
     map ((#) 1) (hits pat e1) @ map ((#) 2) (hits pat e2) @ map ((#) 3) (hits pat e3)"
| "hits pat (TypedExp ty e1) =
     (if equals pat (TypedExp ty e1) then [[]] else []) @ map ((#) 1) (hits pat e1)"
| "hits pat (AssignExp sz e1 e2) =
     (if equals pat (AssignExp sz e1 e2) then [[]] else []) @
     map ((#) 1) (hits pat e1) @ map ((#) 2) (hits pat e2)"
| "hits pat (FlagDef e1 rtl) =
     (if equals pat (FlagDef e1 rtl) then [[]] else []) @ map ((#) 1) (hits pat e1)"

section \<open>Properties\<close>

subsection \<open>Searching\<close>

lemma doSearch_all: "doSearch pat x slot li False = li @ map ((@) slot) (hits pat x)"
  by (induction x arbitrary: slot li) (simp_all add: Let_def o_def)

lemma doSearch_top: "doSearch pat x [] [] False = hits pat x"
proof -
  have "map ((@) []) ys = ys" for ys :: "slot list"
    by (induction ys) simp_all
  with doSearch_all [of pat x "[]" "[]"] show ?thesis
    by (simp only: append_Nil)
qed

lemma deref_hits:
  "map (deref x) (hits pat x) = map Some (filter (equals pat) (preorder x))"
  by (induction x) (simp_all add: o_def)

lemma find_as_filter:
  "find Q xs = (case filter Q xs of [] \<Rightarrow> None | y # ys \<Rightarrow> Some y)"
  by (induction xs) simp_all

lemma search_find:
  "search x pat =
     (case find (equals pat) (preorder x) of
        None \<Rightarrow> (False, None)
      | Some s \<Rightarrow> (True, Some s))"
proof (cases "hits pat x")
  case Nil
  with deref_hits [of x pat] have "filter (equals pat) (preorder x) = []"
    by simp
  with Nil show ?thesis
    by (simp only: search_def doSearch_top) (simp add: find_as_filter)
next
  case (Cons pp rest)
  with deref_hits [of x pat]
  obtain s ss where "filter (equals pat) (preorder x) = s # ss" and "deref x pp = Some s"
    by (cases "filter (equals pat) (preorder x)") auto
  with Cons show ?thesis
    by (simp only: search_def doSearch_top) (simp add: find_as_filter)
qed

text \<open>
  Claim C10.  When no subtree of \<open>x\<close> equals the pattern (under wildcard matching),
  \<open>search\<close> returns false and leaves the null pointer in \<open>result\<close>; when some
  subtree does, it returns true and \<open>result\<close> is the first matching subtree in
  pre-order.
\<close>

theorem search_result:
  "((\<forall>s \<in> set (preorder x). \<not> equals pat s) \<longrightarrow> search x pat = (False, None)) \<and>
   ((\<exists>s \<in> set (preorder x). equals pat s) \<longrightarrow>
      search x pat = (True, find (equals pat) (preorder x)))"
proof (intro conjI impI)
  assume "\<forall>s \<in> set (preorder x). \<not> equals pat s"
  then have "find (equals pat) (preorder x) = None"
    by (simp add: find_None_iff)
  then show "search x pat = (False, None)"
    by (simp add: search_find)
next
  assume "\<exists>s \<in> set (preorder x). equals pat s"
  then have "find (equals pat) (preorder x) \<noteq> None"
    by (auto simp: find_None_iff)
  then show "search x pat = (True, find (equals pat) (preorder x))"
    by (auto simp: search_find)
qed

theorem search_result_witness:
  "search (Binary opPlus (Terminal opPC) (Const (Ui 4)) :: (unit, unit) Exp) (Terminal opAFP)
     = (False, None) \<and>
   search (Binary opPlus (Unary opRegOf (Const (Ui 8))) (Unary opRegOf (Const (Ui 9)))
             :: (unit, unit) Exp) (Unary opRegOf (Terminal opWild))
     = (True, Some (Unary opRegOf (Const (Ui 8))))"
proof -
  let ?x = "Binary opPlus (Terminal opPC) (Const (Ui 4)) :: (unit, unit) Exp"
  let ?y = "Binary opPlus (Unary opRegOf (Const (Ui 8))) (Unary opRegOf (Const (Ui 9)))
              :: (unit, unit) Exp"
  let ?p = "Unary opRegOf (Terminal opWild) :: (unit, unit) Exp"
  have none: "\<forall>s \<in> set (preorder ?x). \<not> equals (Terminal opAFP) s"
    by simp
  have some: "\<exists>s \<in> set (preorder ?y). equals ?p s"
    by simp
  have "search ?x (Terminal opAFP) = (False, None)"
    using search_result [of ?x "Terminal opAFP"] none by blast
  moreover have "search ?y ?p = (True, find (equals ?p) (preorder ?y))"
    using search_result [of ?y ?p] some by blast
  ultimately show ?thesis
    by simp
qed

subsection \<open>The total order\<close>

text \<open>
  What the two versions compute on nodes of their own class: the second child of a
  \<^verbatim>\<open>Ternary\<close> plays no part, and for assignments of equal size either child may decide.
\<close>

lemma Ternary_less_unfolded:
  "lessExp opnum tless (Ternary op e1 e2 e3) (Ternary op y1 y2 y3) =
     (if lessExp opnum tless e1 y1 then True
      else if lessExp opnum tless y1 e1 then False
      else lessExp opnum tless e3 y3)"
  by simp

lemma AssignExp_less_unfolded:
  "lessExp opnum tless (AssignExp sz e1 e2) (AssignExp sz y1 y2) =
     (lessExp opnum tless e1 y1 \<or> lessExp opnum tless e2 y2)"
  by simp

text \<open>
  Claim C4.  The order on two \<^verbatim>\<open>Ternary\<close> nodes with the same operator is meant to be
  lexicographic on the three children.  \<^verbatim>\<open>Ternary::operator<\<close> compares the first
  children and then the third, never the second: two nodes that differ in the second
  child only are unordered both ways although they are not equal.
\<close>

theorem Ternary_less_skips_second:
  "lessExp opnum tless (Const (Ui 1)) (Const (Ui 2)) \<and>
   \<not> lessExp opnum tless (Ternary opTern (Const (Ui 0)) (Const (Ui 1)) (Const (Ui 0)))
                            (Ternary opTern (Const (Ui 0)) (Const (Ui 2)) (Const (Ui 0))) \<and>
   \<not> lessExp opnum tless (Ternary opTern (Const (Ui 0)) (Const (Ui 2)) (Const (Ui 0)))
                            (Ternary opTern (Const (Ui 0)) (Const (Ui 1)) (Const (Ui 0))) \<and>
   \<not> equals (Ternary opTern (Const (Ui 0)) (Const (Ui 1)) (Const (Ui 0)))
             (Ternary opTern (Const (Ui 0)) (Const (Ui 2)) (Const (Ui 0)))"
  by simp

text \<open>
  Claim C5.  The order is meant to be a strict weak order: never both \<open>x < y\<close> and
  \<open>y < x\<close>.  \<^verbatim>\<open>AssignExp::operator<\<close> joins the comparisons of the two children with
  \<^verbatim>\<open>||\<close>: two assignments of the same size whose children are ordered in opposite
  directions are each below the other.
\<close>

theorem AssignExp_less_both_ways:
  "lessExp opnum tless (AssignExp 32 (Const (Ui 1)) (Const (Ui 2)))
                       (AssignExp 32 (Const (Ui 2)) (Const (Ui 1))) \<and>
   lessExp opnum tless (AssignExp 32 (Const (Ui 2)) (Const (Ui 1)))
                       (AssignExp 32 (Const (Ui 1)) (Const (Ui 2)))"
  by simp

subsection \<open>Arithmetic normalisation\<close>

text \<open>The right side of an assignment has no influence on the partition.\<close>

lemma partitionTerms_AssignExp_rhs_unread:
  "partitionTerms (AssignExp sz e1 e2) acc negate =
     partitionTerms (AssignExp sz e1 e2') acc negate"
  by simp

text \<open>
  Claim C6.  \<open>partition_terms\<close> on an assignment is meant to descend into the left and
  then the right side.  The code reads the first child twice: the terms of the left side
  are entered twice and those of the right side not at all.
\<close>

theorem partitionTerms_AssignExp_lhs_twice:
  "partitionTerms (AssignExp 32 (Terminal opPC) (Terminal opAFP)) ([], [], []) False =
     Inr ([Terminal opPC, Terminal opPC], [], [])"
  by (simp add: bindE_def pushTerm_def Let_def)

subsection \<open>The peephole simplifier\<close>

lemmas simplifier_defs =
  bindP_def bindE_def binaryRules_def binaryTail_def
  ruleFold_def ruleSame_def ruleMinusToPlus_def ruleCommute_def ruleZeroRight_def
  ruleZeroResult_def ruleTimesOne_def ruleAndMinusOne_def ruleAndTrue_def ruleMinusConst_def
  ruleShiftL_def ruleNegCompare_def rulePlusCompareZero_def ruleCompareConst_def
  rulePlusNegEqualsZero_def ruleNotEqualZero_def ruleOrEquals_def ruleAndSame_def
  rulePlusMult_def ruleMultMult_def ruleLNot_def unaryRules_def ternaryRules_def
  foldConst_def getInt_def setInt_def sub1E_def sub2E_def sub2Int_def liftSub1_def thisExp_def
  isComparison_def boolInt_def sdiv32_def smod32_def udiv32_def umod32_def shiftCount_def
  c_div_def c_mod_def INT_MIN_def setSubExp2_def recombine_def pushTerm_def pushInt_def
  Exp_simplifyArith_def

text \<open>
  What one pass folds the four divisions to.  The signed ones give the signed quotient
  and remainder; \<^verbatim>\<open>opDiv\<close> divides the unsigned quotient once more.
\<close>

lemma polySimplify_Divs_Mods:
  assumes "k2 \<noteq> 0" and "\<not> (k1 = INT_MIN \<and> k2 = - 1)"
  shows "polySimplify leaf (Binary opDivs (Const (Ui k1)) (Const (Ui k2))) bMod =
           Some (Inr (Const (Ui (word_of_int (c_div (sint k1) (sint k2)))), True))"
    and "polySimplify leaf (Binary opMods (Const (Ui k1)) (Const (Ui k2))) bMod =
           Some (Inr (Const (Ui (word_of_int (c_mod (sint k1) (sint k2)))), True))"
  using assms
  by (simp_all add: polySimplify.simps bindP_def bindE_def binaryRules_def ruleFold_def
        foldConst_def getInt_def sdiv32_def smod32_def)

lemma polySimplify_Div_general:
  "k2 \<noteq> 0 \<Longrightarrow>
   polySimplify leaf (Binary opDiv (Const (Ui k1)) (Const (Ui k2))) bMod =
     Some (bindE (sdiv32 (k1 div k2) k2) (\<lambda>r. Inr (Const (Ui r), True)))"
  by (simp add: polySimplify.simps simplifier_defs split: sum.splits)

text \<open>
  Claim C3.  One pass is meant to fold \<open>Div\<close> and \<open>Mod\<close> of two constants to the
  unsigned quotient and remainder.  In the folding \<^verbatim>\<open>switch\<close> the labels \<^verbatim>\<open>opDiv\<close> and
  \<^verbatim>\<open>opMod\<close> lack a \<^verbatim>\<open>break\<close>: the unsigned result is divided once more, signed, by
  the same divisor.  \<open>7 / 2\<close> folds to 1 (the unsigned quotient is 3), and \<open>5 % -1\<close> to
  0 (the unsigned remainder is 5).
\<close>

theorem polySimplify_Div_Mod_fall_through:
  "polySimplify leaf (Binary opDiv (Const (Ui 7)) (Const (Ui 2))) bMod =
     Some (Inr (Const (Ui 1), True)) \<and>
   polySimplify leaf (Binary opMod (Const (Ui 5)) (Const (Ui (- 1)))) bMod =
     Some (Inr (Const (Ui 0), True))"
  by (simp add: polySimplify.simps simplifier_defs)

text \<open>
  Subtracting zero from an expression that a pass leaves as it is, and that is not an
  integer constant: the loop ends after one pass, with the subtraction turned into the
  addition of a negated zero.
\<close>

lemma simplify_minus_zero_general:
  assumes "polySimplify leaf x False = Some (Inr (x, False))" and "leaf False = False"
    and "getOper x \<noteq> opIntConst" and "\<not> equals x (Const (Ui 0))"
  shows "simplify leaf (Binary opMinus x (Const (Ui 0))) =
           Some (Inr (Binary opPlus x (Unary opNeg (Const (Ui 0)))))"
proof -
  have "polySimplify leaf (Binary opMinus x (Const (Ui 0))) False =
          Some (Inr (Binary opPlus x (Unary opNeg (Const (Ui 0))), False))"
    apply (subst polySimplify.simps)
    apply (simp add: assms bindP_def)
    apply (subst polySimplify.simps)
    apply (simp add: assms simplifier_defs)
    done
  then show ?thesis
    by (subst simplify.simps) (simp add: bindP_def)
qed

text \<open>
  Claim C7.  \<open>simplify\<close> is meant to rewrite \<open>x - 0\<close> to \<open>x\<close>.  A pass first turns
  \<open>x - 0\<close> into \<open>x + -(0)\<close> without setting \<^verbatim>\<open>bMod\<close>; the right child is then a
  negation, not a constant, so the rule for a zero on the right does not apply, and when
  \<open>x\<close> is already simplified the loop stops there.  The result below is the same
  whether the leaf version of \<^verbatim>\<open>polySimplify\<close> leaves \<^verbatim>\<open>bMod\<close> alone or clears it.
\<close>

theorem simplify_minus_zero_stays:
  "simplify (\<lambda>b. b) (Binary opMinus (Terminal opPC) (Const (Ui 0))) =
     Some (Inr (Binary opPlus (Terminal opPC) (Unary opNeg (Const (Ui 0))))) \<and>
   simplify (\<lambda>b. False) (Binary opMinus (Terminal opPC) (Const (Ui 0))) =
     Some (Inr (Binary opPlus (Terminal opPC) (Unary opNeg (Const (Ui 0)))))"
  by (simp add: simplify.simps polySimplify.simps simplifier_defs)

text \<open>
  Claim C2.  \<open>simplify\<close> is meant to be idempotent.  The result of simplifying
  \<open>%pc - 0\<close> is \<open>%pc + -(0)\<close>; simplifying that gives \<open>%pc\<close>, which is not equal to
  it.
\<close>

theorem simplify_twice_differs:
  "simplify (\<lambda>b. b) (Binary opMinus (Terminal opPC) (Const (Ui 0))) =
     Some (Inr (Binary opPlus (Terminal opPC) (Unary opNeg (Const (Ui 0))))) \<and>
   simplify (\<lambda>b. b) (Binary opPlus (Terminal opPC) (Unary opNeg (Const (Ui 0)))) =
     Some (Inr (Terminal opPC)) \<and>
   simplify (\<lambda>b. False) (Binary opMinus (Terminal opPC) (Const (Ui 0))) =
     Some (Inr (Binary opPlus (Terminal opPC) (Unary opNeg (Const (Ui 0))))) \<and>
   simplify (\<lambda>b. False) (Binary opPlus (Terminal opPC) (Unary opNeg (Const (Ui 0)))) =
     Some (Inr (Terminal opPC)) \<and>
   \<not> equals (Terminal opPC) (Binary opPlus (Terminal opPC) (Unary opNeg (Const (Ui 0))))"
  by (simp add: simplify.simps polySimplify.simps simplifier_defs)

subsection \<open>\<^verbatim>\<open>fixSuccessor\<close>\<close>

lemma hits_Nil_iff: "hits pat x = [] \<longleftrightarrow> (\<forall>s \<in> set (preorder x). \<not> equals pat s)"
  by (induction x) auto

lemma find_append_Some: "find Q xs = Some y \<Longrightarrow> find Q (xs @ ys) = Some y"
  by (induction xs) (auto split: if_splits)

lemma find_append_None: "find Q xs = None \<Longrightarrow> find Q (xs @ ys) = find Q ys"
  by (induction xs) (auto split: if_splits)

lemma find_Some_holds: "find Q xs = Some y \<Longrightarrow> Q y"
  by (induction xs) (auto split: if_splits)

lemma find_preorder_root: "Q x \<Longrightarrow> find Q (preorder x) = Some x"
  by (cases x) simp_all

lemma find_preorder_step:
  "\<not> Q x \<Longrightarrow> find Q (preorder x) = find Q (tl (preorder x))"
  by (cases x) simp_all

lemma root_hit: "equals r x \<Longrightarrow> hits r x \<noteq> [] \<and> hd (hits r x) = []"
  by (cases x) simp_all

lemma replaceFirst_root: "Q x \<Longrightarrow> replaceFirst Q v x = v"
  by (cases x) simp_all

lemma assign_first_hit_root:
  assumes "equals p x" and "find (equals p) (preorder x) = Some r'" and "equals r r'"
  shows "hits r x \<noteq> [] \<and> assign x (hd (hits r x)) v = replaceFirst (equals p) v x"
proof -
  from assms(1,2) have "r' = x"
    by (simp add: find_preorder_root)
  with assms(3) have "hits r x \<noteq> []" and "hd (hits r x) = []"
    by (simp_all add: root_hit)
  with assms(1) show ?thesis
    by (simp add: replaceFirst_root)
qed

lemma assign_first_hit:
  assumes sub: "\<And>s. equals r s \<Longrightarrow> equals p s"
  shows "find (equals p) (preorder x) = Some r' \<Longrightarrow> equals r r' \<Longrightarrow>
         hits r x \<noteq> [] \<and> assign x (hd (hits r x)) v = replaceFirst (equals p) v x"
proof (induction x)
  case (Const c)
  then show ?case by (auto split: if_splits)
next
  case (Terminal op)
  then show ?case by (auto split: if_splits)
next
  case (Unary op e1)
  show ?case
  proof (cases "equals p (Unary op e1)")
    case True
    then show ?thesis using Unary.prems by (rule assign_first_hit_root)
  next
    case False
    then have nr: "\<not> equals r (Unary op e1)" using sub by blast
    from False Unary.prems have "find (equals p) (preorder e1) = Some r'" by simp
    from Unary.IH [OF this Unary.prems(2)] False nr show ?thesis
      by (simp add: hd_map)
  qed
next
  case (FlagDef e1 rtl)
  show ?case
  proof (cases "equals p (FlagDef e1 rtl)")
    case True
    then show ?thesis using FlagDef.prems by (rule assign_first_hit_root)
  next
    case False
    then have nr: "\<not> equals r (FlagDef e1 rtl)" using sub by blast
    from False FlagDef.prems have "find (equals p) (preorder e1) = Some r'" by simp
    from FlagDef.IH [OF this FlagDef.prems(2)] False nr show ?thesis
      by (simp add: hd_map)
  qed
next
  case (TypedExp ty e1)
  show ?case
  proof (cases "equals p (TypedExp ty e1)")
    case True
    then show ?thesis using TypedExp.prems by (rule assign_first_hit_root)
  next
    case False
    then have nr: "\<not> equals r (TypedExp ty e1)" using sub by blast
    from False TypedExp.prems have "find (equals p) (preorder e1) = Some r'" by simp
    from TypedExp.IH [OF this TypedExp.prems(2)] False nr show ?thesis
      by (simp add: hd_map)
  qed
next
  case (Binary op e1 e2)
  show ?case
  proof (cases "equals p (Binary op e1 e2)")
    case True
    then show ?thesis using Binary.prems by (rule assign_first_hit_root)
  next
    case False
    then have nr: "\<not> equals r (Binary op e1 e2)" using sub by blast
    from False Binary.prems
    have f: "find (equals p) (preorder e1 @ preorder e2) = Some r'" by simp
    show ?thesis
    proof (cases "find (equals p) (preorder e1)")
      case None
      then have n1: "\<forall>s \<in> set (preorder e1). \<not> equals p s"
        by (simp add: find_None_iff)
      then have "\<forall>s \<in> set (preorder e1). \<not> equals r s" using sub by blast
      then have h1: "hits r e1 = []" by (simp add: hits_Nil_iff)
      from None f have "find (equals p) (preorder e2) = Some r'"
        by (simp add: find_append_None)
      from Binary.IH(2) [OF this Binary.prems(2)] False nr h1 n1 show ?thesis
        by (simp add: hd_map)
    next
      case (Some a)
      with f have "find (equals p) (preorder e1) = Some r'"
        by (simp add: find_append_Some)
      moreover from Some have "\<exists>s \<in> set (preorder e1). equals p s"
        by (metis find_None_iff option.distinct(1))
      ultimately show ?thesis
        using Binary.IH(1) [OF _ Binary.prems(2)] False nr
        by (simp add: hd_map hd_append)
    qed
  qed
next
  case (AssignExp sz e1 e2)
  show ?case
  proof (cases "equals p (AssignExp sz e1 e2)")
    case True
    then show ?thesis using AssignExp.prems by (rule assign_first_hit_root)
  next
    case False
    then have nr: "\<not> equals r (AssignExp sz e1 e2)" using sub by blast
    from False AssignExp.prems
    have f: "find (equals p) (preorder e1 @ preorder e2) = Some r'" by simp
    show ?thesis
    proof (cases "find (equals p) (preorder e1)")
      case None
      then have n1: "\<forall>s \<in> set (preorder e1). \<not> equals p s"
        by (simp add: find_None_iff)
      then have "\<forall>s \<in> set (preorder e1). \<not> equals r s" using sub by blast
      then have h1: "hits r e1 = []" by (simp add: hits_Nil_iff)
      from None f have "find (equals p) (preorder e2) = Some r'"
        by (simp add: find_append_None)
      from AssignExp.IH(2) [OF this AssignExp.prems(2)] False nr h1 n1 show ?thesis
        by (simp add: hd_map)
    next
      case (Some a)
      with f have "find (equals p) (preorder e1) = Some r'"
        by (simp add: find_append_Some)
      moreover from Some have "\<exists>s \<in> set (preorder e1). equals p s"
        by (metis find_None_iff option.distinct(1))
      ultimately show ?thesis
        using AssignExp.IH(1) [OF _ AssignExp.prems(2)] False nr
        by (simp add: hd_map hd_append)
    qed
  qed
next
  case (Ternary op e1 e2 e3)
  show ?case
  proof (cases "equals p (Ternary op e1 e2 e3)")
    case True
    then show ?thesis using Ternary.prems by (rule assign_first_hit_root)
  next
    case False
    then have nr: "\<not> equals r (Ternary op e1 e2 e3)" using sub by blast
    from False Ternary.prems
    have f: "find (equals p) (preorder e1 @ preorder e2 @ preorder e3) = Some r'" by simp
    show ?thesis
    proof (cases "find (equals p) (preorder e1)")
      case None
      then have n1: "\<forall>s \<in> set (preorder e1). \<not> equals p s"
        by (simp add: find_None_iff)
      then have "\<forall>s \<in> set (preorder e1). \<not> equals r s" using sub by blast
      then have h1: "hits r e1 = []" by (simp add: hits_Nil_iff)
      from None f have f2: "find (equals p) (preorder e2 @ preorder e3) = Some r'"
        by (simp add: find_append_None)
      show ?thesis
      proof (cases "find (equals p) (preorder e2)")
        case None
        then have n2: "\<forall>s \<in> set (preorder e2). \<not> equals p s"
          by (simp add: find_None_iff)
        then have "\<forall>s \<in> set (preorder e2). \<not> equals r s" using sub by blast
        then have h2: "hits r e2 = []" by (simp add: hits_Nil_iff)
        from None f2 have "find (equals p) (preorder e3) = Some r'"
          by (simp add: find_append_None)
        from Ternary.IH(3) [OF this Ternary.prems(2)] False nr h1 n1 h2 n2 show ?thesis
          by (simp add: hd_map)
      next
        case (Some a)
        with f2 have "find (equals p) (preorder e2) = Some r'"
          by (simp add: find_append_Some)
        moreover from Some have "\<exists>s \<in> set (preorder e2). equals p s"
          by (metis find_None_iff option.distinct(1))
        ultimately show ?thesis
          using Ternary.IH(2) [OF _ Ternary.prems(2)] False nr h1 n1
          by (simp add: hd_map hd_append)
      qed
    next
      case (Some a)
      with f have "find (equals p) (preorder e1) = Some r'"
        by (simp add: find_append_Some)
      moreover from Some have "\<exists>s \<in> set (preorder e1). equals p s"
        by (metis find_None_iff option.distinct(1))
      ultimately show ?thesis
        using Ternary.IH(1) [OF _ Ternary.prems(2)] False nr
        by (simp add: hd_map hd_append)
    qed
  qed
qed

lemma equals_succ_regof:
  "equals (Unary opSuccessor (Unary opRegOf c)) s \<Longrightarrow> equals succRegOf s"
  by (auto simp: succRegOf_def split: if_splits option.splits)

lemma searchReplace_first:
  assumes "find (equals p) (preorder x) = Some r" and "equals r r"
    and "\<And>s. equals r s \<Longrightarrow> equals p s"
  shows "searchReplace x r v = Inr (replaceFirst (equals p) (clone v) x, True)"
proof -
  from assign_first_hit [of r p x r "clone v", OF assms(3) assms(1) assms(2)]
  obtain pp li where "hits r x = pp # li"
    and "assign x pp (clone v) = replaceFirst (equals p) (clone v) x"
    by (cases "hits r x") auto
  then show ?thesis
    by (simp only: searchReplace_def searchReplaceAll_def doSearch_top) simp
qed

text \<open>
  Claim C8, as amended.  \<open>fixSuccessor\<close> looks for the first subtree in pre-order that
  matches \<open>succ(r[WILD])\<close>.  When there is none, it returns the expression unchanged.
  When that subtree is \<open>succ(r[k])\<close> for an integer constant \<open>k\<close>, it returns the
  expression with that one subtree replaced by \<open>r[k+1]\<close> and everything else,
  further occurrences included, as it was.
\<close>

theorem fixSuccessor_first:
  "(find (equals succRegOf) (preorder x) = None \<longrightarrow> fixSuccessor x = Inr x) \<and>
   (find (equals succRegOf) (preorder x) =
      Some (Unary opSuccessor (Unary opRegOf (Const (Ui k)))) \<longrightarrow>
    fixSuccessor x =
      Inr (replaceFirst (equals succRegOf) (Unary opRegOf (Const (Ui (k + 1)))) x))"
proof (intro conjI impI)
  assume "find (equals succRegOf) (preorder x) = None"
  then show "fixSuccessor x = Inr x"
    by (simp add: fixSuccessor_def search_find)
next
  let ?r = "Unary opSuccessor (Unary opRegOf (Const (Ui k))) :: ('a, 'b) Exp"
  assume f: "find (equals succRegOf) (preorder x) = Some ?r"
  have "searchReplace x ?r (Unary opRegOf (Const (Ui (k + 1)))) =
          Inr (replaceFirst (equals succRegOf) (clone (Unary opRegOf (Const (Ui (k + 1))))) x,
               True)"
    using f by (rule searchReplace_first) (simp_all add: equals_succ_regof)
  with f show "fixSuccessor x =
      Inr (replaceFirst (equals succRegOf) (Unary opRegOf (Const (Ui (k + 1)))) x)"
    by (simp add: fixSuccessor_def search_find bindE_def sub1E_def getInt_def setInt_def
          setSubExp1_def)
qed

theorem fixSuccessor_first_witness:
  "fixSuccessor (Terminal opPC :: (unit, unit) Exp) = Inr (Terminal opPC) \<and>
   fixSuccessor (Unary opSuccessor (Unary opRegOf (Const (Ui 7))) :: (unit, unit) Exp) =
     Inr (Unary opRegOf (Const (Ui 8)))"
proof -
  let ?x = "Terminal opPC :: (unit, unit) Exp"
  let ?y = "Unary opSuccessor (Unary opRegOf (Const (Ui 7))) :: (unit, unit) Exp"
  have none: "find (equals succRegOf) (preorder ?x) = None"
    by (simp add: succRegOf_def)
  have some: "find (equals succRegOf) (preorder ?y) = Some ?y"
    by (simp add: succRegOf_def)
  have "fixSuccessor ?x = Inr ?x"
    using fixSuccessor_first [of ?x] none by blast
  moreover have "fixSuccessor ?y =
      Inr (replaceFirst (equals succRegOf) (Unary opRegOf (Const (Ui (7 + 1)))) ?y)"
    using fixSuccessor_first [of ?y 7] some by blast
  ultimately show ?thesis
    by (simp add: succRegOf_def)
qed

text \<open>
  Claim C8, as stated, fails: of two occurrences of \<open>succ(r[k])\<close> only the first is
  rewritten.
\<close>

theorem fixSuccessor_second_kept:
  "fixSuccessor (Binary opPlus (Unary opSuccessor (Unary opRegOf (Const (Ui 7))))
                               (Unary opSuccessor (Unary opRegOf (Const (Ui 9))))
                 :: (unit, unit) Exp) =
     Inr (Binary opPlus (Unary opRegOf (Const (Ui 8)))
                        (Unary opSuccessor (Unary opRegOf (Const (Ui 9)))))"
  by (simp add: fixSuccessor_def search_def succRegOf_def searchReplace_def
        searchReplaceAll_def bindE_def sub1E_def getInt_def setInt_def setSubExp1_def Let_def)

subsection \<open>Serialization\<close>

lemma finish_NULL: "finish io NULL ins = Inr (NULL, ins)"
  by (simp add: finish_def)

lemma finish_endMarker:
  "io_ok io \<Longrightarrow> e \<noteq> NULL \<Longrightarrow> finish io e (endMarker io @ rest) = Inr (e, rest)"
  by (simp add: io_ok_def finish_def endMarker_def)

lemma c_str_id: "CHR 0x00 \<notin> set s \<Longrightarrow> c_str s = s"
  by (auto simp: c_str_def)

text \<open>
  Reading back what \<open>serialize\<close> wrote gives the very same tree and leaves the stream
  where the record ends, whatever follows it.
\<close>

lemma deserialize_serialize:
  assumes ok: "io_ok io"
  shows "serializable io x \<Longrightarrow>
         deserialize io (serialize io x @ rest) = Some (Inr (ptr x, rest))"
proof (induction x arbitrary: rest)
  case (Const c)
  from ok have ch: "\<And>c r. loadChar io (saveChar io c @ r) = (c, r)"
    and it: "\<And>k r. loadInt io (saveInt io k @ r) = (k, r)"
    and db: "\<And>d r. loadDouble io (saveDouble io d @ r) = (d, r)"
    by (simp_all add: io_ok_def)
  from Const show ?case
    by (cases c; subst deserialize.simps)
       (simp_all add: ch it db finish_endMarker [OF ok] c_str_id)
next
  case (Terminal op)
  from ok have ch: "\<And>c r. loadChar io (saveChar io c @ r) = (c, r)"
    and it: "\<And>k r. loadInt io (saveInt io k @ r) = (k, r)"
    by (simp_all add: io_ok_def)
  from Terminal show ?case
    by (subst deserialize.simps) (simp add: ch it finish_endMarker [OF ok])
next
  case (Unary op e1)
  from ok have ch: "\<And>c r. loadChar io (saveChar io c @ r) = (c, r)"
    and it: "\<And>k r. loadInt io (saveInt io k @ r) = (k, r)"
    by (simp_all add: io_ok_def)
  from Unary.prems have s1: "serializable io e1" and o: "toOPER io (fromOPER io op) = op"
    by simp_all
  show ?case
    by (subst deserialize.simps)
       (simp add: ch it o Unary.IH [OF s1] bindP_def finish_endMarker [OF ok])
next
  case (Binary op e1 e2)
  from ok have ch: "\<And>c r. loadChar io (saveChar io c @ r) = (c, r)"
    and it: "\<And>k r. loadInt io (saveInt io k @ r) = (k, r)"
    by (simp_all add: io_ok_def)
  from Binary.prems have s1: "serializable io e1" and s2: "serializable io e2"
    and o: "toOPER io (fromOPER io op) = op"
    by simp_all
  show ?case
    by (subst deserialize.simps)
       (simp add: ch it o Binary.IH(1) [OF s1] Binary.IH(2) [OF s2] bindP_def
          finish_endMarker [OF ok])
next
  case (Ternary op e1 e2 e3)
  from ok have ch: "\<And>c r. loadChar io (saveChar io c @ r) = (c, r)"
    and it: "\<And>k r. loadInt io (saveInt io k @ r) = (k, r)"
    by (simp_all add: io_ok_def)
  from Ternary.prems have s1: "serializable io e1" and s2: "serializable io e2"
    and s3: "serializable io e3" and o: "toOPER io (fromOPER io op) = op"
    by simp_all
  show ?case
    by (subst deserialize.simps)
       (simp add: ch it o Ternary.IH(1) [OF s1] Ternary.IH(2) [OF s2] Ternary.IH(3) [OF s3]
          bindP_def finish_endMarker [OF ok])
next
  case (TypedExp ty e1)
  from ok have ch: "\<And>c r. loadChar io (saveChar io c @ r) = (c, r)"
    and it: "\<And>k r. loadInt io (saveInt io k @ r) = (k, r)"
    by (simp_all add: io_ok_def)
  from TypedExp.prems have s1: "serializable io e1"
    and t: "\<And>r. typeDeserialize io (typeSerialize io ty @ r) = (ty, r)"
    by simp_all
  show ?case
    by (subst deserialize.simps)
       (simp add: ch it t TypedExp.IH [OF s1] bindP_def finish_endMarker [OF ok])
next
  case (AssignExp sz e1 e2)
  from ok have ch: "\<And>c r. loadChar io (saveChar io c @ r) = (c, r)"
    and it: "\<And>k r. loadInt io (saveInt io k @ r) = (k, r)"
    by (simp_all add: io_ok_def)
  from AssignExp.prems have s1: "serializable io e1" and s2: "serializable io e2"
    by simp_all
  show ?case
    by (subst deserialize.simps)
       (simp add: ch it AssignExp.IH(1) [OF s1] AssignExp.IH(2) [OF s2] bindP_def
          finish_endMarker [OF ok])
next
  case (FlagDef e1 rtl)
  from ok have ch: "\<And>c r. loadChar io (saveChar io c @ r) = (c, r)"
    and it: "\<And>k r. loadInt io (saveInt io k @ r) = (k, r)"
    by (simp_all add: io_ok_def)
  from FlagDef.prems have s1: "serializable io e1"
    and t: "\<And>r. rtlDeserialize io (rtlSerialize io rtl @ r) = (rtl, r)"
    by simp_all
  show ?case
    by (subst deserialize.simps)
       (simp add: ch it t FlagDef.IH [OF s1] bindP_def finish_endMarker [OF ok])
qed

lemma dbl_eq_refl: "\<not> dbl_isnan d \<Longrightarrow> dbl_eq d d"
  by (simp add: dbl_eq_def)

lemma equals_refl: "comparable x \<Longrightarrow> equals x x"
  by (induction x) (auto simp: dbl_eq_refl split: cval.splits)

text \<open>
  A NaN constant is not equal to itself under \<^verbatim>\<open>Const::operator==\<close>, which compares
  the payloads with \<^verbatim>\<open>u.d == o.u.d\<close>.
\<close>

lemma NaN_not_self_equal:
  "\<not> equals (Const (Ud 0x7FF8000000000000)) (Const (Ud 0x7FF8000000000000))"
  by (simp add: dbl_eq_def dbl_isnan_def dbl_mag_def)

text \<open>
  Claim C1, as amended.  For every well-formed expression \<open>x\<close> of any variant,
  deserializing the bytes that serializing \<open>x\<close> produced yields the pointer to \<open>x\<close>
  itself, payloads and size included, and leaves unread whatever follows the record in
  the stream (\<open>rest\<close>); the expression read is equal to \<open>x\<close> under \<^verbatim>\<open>operator==\<close>
  when \<open>x\<close> holds no NaN constant (\<open>comparable\<close>).  Well-formed is: the stream helpers
  read back what they write (\<open>io_ok\<close>, \<open>serializable\<close>).
\<close>

theorem serialize_roundtrip:
  assumes "io_ok io" and "serializable io x"
  shows "\<exists>y. deserialize io (serialize io x @ rest) = Some (Inr (ptr y, rest)) \<and>
             y = x \<and> (comparable x \<longrightarrow> equals y x)"
  using assms deserialize_serialize [of io x rest] equals_refl [of x] by simp

lemma nat_bytes_length [simp]: "length (nat_bytes n v) = n"
  by (induction n arbitrary: v) simp_all

lemma bytes_nat_bytes: "v < 256 ^ n \<Longrightarrow> bytes_nat (nat_bytes n v) = v"
proof (induction n arbitrary: v)
  case 0
  then show ?case by simp
next
  case (Suc n)
  then have "v div 256 < 256 ^ n"
    by (simp add: less_mult_imp_div_less mult.commute)
  with Suc.IH have "bytes_nat (nat_bytes n (v div 256)) = v div 256"
    by blast
  then show ?case by simp
qed

lemma nat_bytes_numeral:
  "nat_bytes (numeral k) v = char_of (v mod 256) # nat_bytes (pred_numeral k) (v div 256)"
proof -
  have "numeral k = Suc (pred_numeral k)"
    by (rule numeral_eq_Suc)
  then show ?thesis
    by (simp only: nat_bytes.simps)
qed

lemma loadBytes_nat_bytes:
  "v < 256 ^ n \<Longrightarrow> loadBytes n (nat_bytes n v @ rest) = (v, rest)"
  by (simp add: loadBytes_def bytes_nat_bytes)

lemma loadBytes_int32: "loadBytes 4 (nat_bytes 4 (unat k) @ rest) = (unat k, rest)"
  for k :: int32
  using unsigned_less [of k] by (intro loadBytes_nat_bytes) simp

lemma exampleIO_ok: "io_ok exampleIO"
proof -
  have d: "loadBytes 8 (nat_bytes 8 (unat k) @ rest) = (unat k, rest)"
    for k :: double and rest
    using unsigned_less [of k] by (intro loadBytes_nat_bytes) simp
  have f: "loadBytes 2 (nat_bytes 2 0x7E @ rest) = (0x7E, rest)" for rest
    by (intro loadBytes_nat_bytes) simp
  have l: "loadBytes 1 (nat_bytes 1 0 @ rest) = (0, rest)" for rest
    by (intro loadBytes_nat_bytes) simp
  show ?thesis
    unfolding io_ok_def exampleIO_def
    by (simp only: io.simps loadBytes_int32 d f l) simp
qed

theorem serialize_roundtrip_witness:
  "\<exists>y. deserialize exampleIO
          (serialize exampleIO
             (AssignExp 32 (TypedExp 16 (Unary opRegOf (Const (Ui 8))))
                (Ternary opTern (Terminal opPC)
                   (Binary opPlus (Const (Up ''ab'')) (Const (Ud 0x4000000000000000)))
                   (FlagDef (Terminal opPC) ''rtl''))) @ ''zz'')
        = Some (Inr (ptr y, ''zz'')) \<and>
       y = AssignExp 32 (TypedExp 16 (Unary opRegOf (Const (Ui 8))))
             (Ternary opTern (Terminal opPC)
                (Binary opPlus (Const (Up ''ab'')) (Const (Ud 0x4000000000000000)))
                (FlagDef (Terminal opPC) ''rtl'')) \<and>
       equals y
         (AssignExp 32 (TypedExp 16 (Unary opRegOf (Const (Ui 8))))
            (Ternary opTern (Terminal opPC)
               (Binary opPlus (Const (Up ''ab'')) (Const (Ud 0x4000000000000000)))
               (FlagDef (Terminal opPC) ''rtl'')))"
proof -
  let ?x = "AssignExp 32 (TypedExp 16 (Unary opRegOf (Const (Ui 8))))
              (Ternary opTern (Terminal opPC)
                 (Binary opPlus (Const (Up ''ab'')) (Const (Ud 0x4000000000000000)))
                 (FlagDef (Terminal opPC) ''rtl'')) :: (int32, string) Exp"
  have ser: "serializable exampleIO ?x"
    by (simp add: exampleIO_def numberOp_def loadStr_def loadBytes_nat_bytes)
  have cmp: "comparable ?x"
    by (simp add: dbl_isnan_def dbl_mag_def)
  from serialize_roundtrip [OF exampleIO_ok ser, of "''zz''"] cmp show ?thesis
    by blast
qed

text \<open>
  Claim C1, as stated, fails: a floating-point constant that is a NaN is written and
  read back bit for bit, and the constant read is not equal to the one written under
  \<^verbatim>\<open>operator==\<close>.
\<close>

theorem serialize_roundtrip_NaN:
  "deserialize exampleIO (serialize exampleIO (Const (Ud 0x7FF8000000000000))) =
     Some (Inr (newConst (Ud 0x7FF8000000000000), [])) \<and>
   \<not> equals (Const (Ud 0x7FF8000000000000) :: (int32, string) Exp)
       (Const (Ud 0x7FF8000000000000))"
proof -
  let ?x = "Const (Ud 0x7FF8000000000000) :: (int32, string) Exp"
  have "serializable exampleIO ?x"
    by (simp add: exampleIO_def numberOp_def)
  from deserialize_serialize [OF exampleIO_ok this, of "[]"] NaN_not_self_equal
  show ?thesis by simp
qed

text \<open>
  A record with one child whose child comes back null: the node is built around the
  null pointer, and its end marker is looked for in what the call for the child left
  in the stream.
\<close>

lemma deserialize_Unary_NULL:
  assumes "loadChar io ins = (CHR ''U'', ins1)" and "loadInt io ins1 = (iop, ins2)"
    and "deserialize io ins2 = Some (Inr (NULL, ins3))"
  shows "deserialize io ins = Some (finish io (newUnary (toOPER io iop) NULL) ins3)"
  by (subst deserialize.simps) (simp add: assms bindP_def)

text \<open>
  When the bytes left over happen to be an end marker, the caller gets a node with a
  null child.
\<close>

lemma deserialize_null_child_returned:
  "deserialize exampleIO
     (''U'' @ saveInt exampleIO (fromOPER exampleIO opRegOf) @
      ''X'' @ saveInt exampleIO (fromOPER exampleIO opIntConst) @
      endMarker exampleIO) =
   Some (Inr (newUnary opRegOf NULL, []))"
  apply (subst deserialize.simps)
  apply (simp add: exampleIO_def numberOp_def loadBytes_def nat_bytes_numeral)
  apply (subst deserialize.simps)
  apply (simp add: bindP_def finish_def endMarker_def exampleIO_def numberOp_def
           loadBytes_def nat_bytes_numeral)
  done

text \<open>
  Claim C9, as amended.  On a record whose tag byte is unknown, or whose tag is \<open>C\<close>
  with an operator that is none of the three constant operators, the call of
  \<open>deserialize\<close> that reads the record returns the null pointer, and no assertion is
  evaluated in it.  It has read the tag and the operator and nothing else: the rest of
  the record stays in the stream.  This holds whatever the stream helpers do.
\<close>

theorem deserialize_malformed:
  "(fst (loadChar io ins) \<notin> set ''CtUBTyAF'' \<longrightarrow>
      deserialize io ins = Some (Inr (NULL, snd (loadInt io (snd (loadChar io ins)))))) \<and>
   (fst (loadChar io ins) = CHR ''C'' \<and>
    toOPER io (fst (loadInt io (snd (loadChar io ins))))
      \<notin> {opIntConst, opFltConst, opStrConst} \<longrightarrow>
      deserialize io ins = Some (Inr (NULL, snd (loadInt io (snd (loadChar io ins))))))"
  by (subst deserialize.simps, subst (2) deserialize.simps)
     (simp add: split_beta Let_def finish_NULL)

theorem deserialize_malformed_witness:
  "deserialize exampleIO (CHR ''X'' # nat_bytes 4 (unat (1 :: int32)) @ ''junk'') =
     Some (Inr (NULL, ''junk'')) \<and>
   deserialize exampleIO (CHR ''C'' # nat_bytes 4 (unat (1 :: int32)) @ ''junk'') =
     Some (Inr (NULL, ''junk''))"
proof -
  let ?a = "CHR ''X'' # nat_bytes 4 (unat (1 :: int32)) @ ''junk''"
  let ?b = "CHR ''C'' # nat_bytes 4 (unat (1 :: int32)) @ ''junk''"
  have a: "fst (loadChar exampleIO ?a) \<notin> set ''CtUBTyAF''"
    by (simp add: exampleIO_def)
  have b: "fst (loadChar exampleIO ?b) = CHR ''C'' \<and>
           toOPER exampleIO (fst (loadInt exampleIO (snd (loadChar exampleIO ?b))))
             \<notin> {opIntConst, opFltConst, opStrConst}"
    by (simp add: exampleIO_def loadBytes_nat_bytes numberOp_def)
  have "deserialize exampleIO ?a =
          Some (Inr (NULL, snd (loadInt exampleIO (snd (loadChar exampleIO ?a)))))"
    using deserialize_malformed [of exampleIO ?a] a by blast
  moreover have "deserialize exampleIO ?b =
          Some (Inr (NULL, snd (loadInt exampleIO (snd (loadChar exampleIO ?b)))))"
    using deserialize_malformed [of exampleIO ?b] b by blast
  ultimately show ?thesis
    by (simp add: exampleIO_def loadBytes_nat_bytes)
qed

text \<open>
  Claim C9, as stated, fails.  The bytes below are what \<open>serialize\<close> writes for
  \<open>r[5]\<close>, with the operator of the constant replaced by \<^verbatim>\<open>opPlus\<close>.  The call for the
  constant returns null with the payload and the end marker of the constant still in
  the stream; the record around it builds its node and asserts its own end marker on
  the payload, which ends the program.  Read on its own, the record of the constant
  is not skipped: its payload and end marker are what the next read gets.
\<close>

theorem deserialize_malformed_nested:
  "deserialize exampleIO
     (''U'' @ saveInt exampleIO (fromOPER exampleIO opRegOf) @
      ''C'' @ saveInt exampleIO (fromOPER exampleIO opPlus) @ saveInt exampleIO 5 @
      endMarker exampleIO @ endMarker exampleIO) =
   Some (Inl AssertFailed) \<and>
   deserialize exampleIO
     (''C'' @ saveInt exampleIO (fromOPER exampleIO opPlus) @ saveInt exampleIO 5 @
      endMarker exampleIO) =
   Some (Inr (NULL, saveInt exampleIO 5 @ endMarker exampleIO))"
proof
  show "deserialize exampleIO
     (''U'' @ saveInt exampleIO (fromOPER exampleIO opRegOf) @
      ''C'' @ saveInt exampleIO (fromOPER exampleIO opPlus) @ saveInt exampleIO 5 @
      endMarker exampleIO @ endMarker exampleIO) =
   Some (Inl AssertFailed)"
    apply (subst deserialize.simps)
    apply (simp add: exampleIO_def numberOp_def loadBytes_def nat_bytes_numeral)
    apply (subst deserialize.simps)
    apply (simp add: bindP_def finish_def endMarker_def exampleIO_def numberOp_def
             loadBytes_def nat_bytes_numeral)
    done
  show "deserialize exampleIO
     (''C'' @ saveInt exampleIO (fromOPER exampleIO opPlus) @ saveInt exampleIO 5 @
      endMarker exampleIO) =
   Some (Inr (NULL, saveInt exampleIO 5 @ endMarker exampleIO))"
    apply (subst deserialize.simps)
    apply (simp add: finish_def endMarker_def exampleIO_def numberOp_def loadBytes_def
             nat_bytes_numeral)
    done
qed

end
